theory Spec2Isabelle
  imports Complex_Main "HOL-Library.AList"
begin

section \<open>The motile plugin: parameters, solver wiring and editor widgets\<close>

text \<open>
  A shallow embedding of the Python sources of the plugin. Python objects that the code
  mutates are state that is passed in and returned; a raised exception is the left
  summand of a result; a call into the tracking library or into the GUI toolkit is made
  through a function that the model takes as a parameter, and is recorded where the
  order of the calls matters.
\<close>

subsection \<open>Errors\<close>

datatype py_error =
    RuntimeError
  | KeyError
  | UnboundLocalError
  | AxisError
  | FileNotFoundError
  | TypeError
  | OverflowError

definition bind_result :: "('e + 'a) \<Rightarrow> ('a \<Rightarrow> 'e + 'b) \<Rightarrow> 'e + 'b" where
  "bind_result m f = (case m of Inl e \<Rightarrow> Inl e | Inr x \<Rightarrow> f x)"

subsection \<open>The parameter model\<close>

text \<open>
  Modelled from the spec: the class \<open>SolverParams\<close> (\<open>solver_params.py\<close>) is not among
  the sources. The spec describes it as ``a small set of editable numeric fields
  (thresholds, costs, weights) with optional (nullable) values representing feature
  disabled''. The fields are the attributes that \<open>motile_solver.py\<close> reads and that
  \<open>_motile_widget.py\<close> lists in \<open>param_categories\<close>. A field is nullable when the
  sources test it against \<open>None\<close> or assign \<open>None\<close> to it: the four constant costs
  sit behind an \<open>EnableBox\<close>, and the weight and the offset of a feature cost sit
  together in an \<open>EnableGroup\<close> whose spin boxes each assign \<open>None\<close> to their own
  parameter when they are disabled.
\<close>

record SolverParams =
  max_edge_distance :: real
  max_children :: int
  max_parents :: int
  appear_cost :: "real option"
  disappear_cost :: "real option"
  division_cost :: "real option"
  merge_cost :: "real option"
  distance_weight :: "real option"
  distance_offset :: "real option"
  iou_weight :: "real option"
  iou_offset :: "real option"

subsection \<open>The tracking library, as far as \<open>motile_solver.py\<close> drives it\<close>

text \<open>
  The library's constraint and cost objects are records of their constructor
  arguments. A cost constructor receives Python values, which may be \<open>None\<close>, so its
  arguments are optional here. The solver keeps its track graph, the constraints in the
  order they were added, and the costs under their names in the order they were added;
  \<open>add_costs\<close> names a cost after its class when no name is given and refuses a name
  that is already registered.
\<close>

datatype NodeAttr = TIME

datatype EdgeAttr = DISTANCE | IOU

datatype constraint = MaxChildren int | MaxParents int

datatype cost =
    Appear "real option"
  | Disappear "real option"
  | Split "real option"
  | Merge "real option"
  | EdgeSelection "real option" EdgeAttr "real option"

record 'g TrackGraph =
  nx_graph :: 'g
  frame_attribute :: NodeAttr

record 'g Solver =
  track_graph :: "'g TrackGraph"
  constraints :: "constraint list"
  cost_instances :: "(string \<times> cost) list"

definition Solver_init :: "'g TrackGraph \<Rightarrow> 'g Solver" where
  "Solver_init tg = \<lparr>track_graph = tg, constraints = [], cost_instances = []\<rparr>"

definition add_constraints :: "'g Solver \<Rightarrow> constraint \<Rightarrow> 'g Solver" where
  "add_constraints solver c = solver\<lparr>constraints := constraints solver @ [c]\<rparr>"

fun class_name :: "cost \<Rightarrow> string" where
  "class_name (Appear _) = ''Appear''"
| "class_name (Disappear _) = ''Disappear''"
| "class_name (Split _) = ''Split''"
| "class_name (Merge _) = ''Merge''"
| "class_name (EdgeSelection _ _ _) = ''EdgeSelection''"

definition add_costs :: "'g Solver \<Rightarrow> cost \<Rightarrow> string option \<Rightarrow> py_error + 'g Solver" where
  "add_costs solver c name =
     (let n = (case name of None \<Rightarrow> class_name c | Some given \<Rightarrow> given)
      in if n \<in> set (map fst (cost_instances solver)) then Inl RuntimeError
         else Inr (solver\<lparr>cost_instances := cost_instances solver @ [(n, c)]\<rparr>))"

subsection \<open>\<open>motile_solver.py\<close>: \<open>construct_solver\<close>\<close>

text \<open>
  The solver object is threaded through the calls. A branch that is not taken leaves
  it as it is. The import of \<open>Merge\<close> inside its branch is taken to succeed, as the
  imports at the head of the module are.
\<close>

definition construct_solver :: "'g \<Rightarrow> SolverParams \<Rightarrow> py_error + 'g Solver" where
  "construct_solver cand_graph solver_params =
     (let solver = Solver_init \<lparr>nx_graph = cand_graph, frame_attribute = TIME\<rparr>;
          solver = add_constraints solver (MaxChildren (max_children solver_params));
          solver = add_constraints solver (MaxParents (max_parents solver_params))
      in
      bind_result
        (if appear_cost solver_params \<noteq> None
         then add_costs solver (Appear (appear_cost solver_params)) None
         else Inr solver) (\<lambda>solver.
      bind_result
        (if disappear_cost solver_params \<noteq> None
         then add_costs solver (Disappear (disappear_cost solver_params)) None
         else Inr solver) (\<lambda>solver.
      bind_result
        (if division_cost solver_params \<noteq> None
         then add_costs solver (Split (division_cost solver_params)) None
         else Inr solver) (\<lambda>solver.
      bind_result
        (if merge_cost solver_params \<noteq> None
         then add_costs solver (Merge (merge_cost solver_params)) None
         else Inr solver) (\<lambda>solver.
      bind_result
        (if distance_weight solver_params \<noteq> None
         then add_costs solver
                (EdgeSelection (distance_weight solver_params) DISTANCE
                   (distance_offset solver_params))
                (Some ''distance'')
         else Inr solver) (\<lambda>solver.
      bind_result
        (if iou_weight solver_params \<noteq> None
         then add_costs solver
                (EdgeSelection (iou_weight solver_params) IOU (iou_offset solver_params))
                (Some ''iou'')
         else Inr solver) (\<lambda>solver.
      Inr solver)))))))"

text \<open>The cost terms that the wiring is meant to register, one list per parameter.\<close>

definition wired_costs :: "SolverParams \<Rightarrow> (string \<times> cost) list" where
  "wired_costs p =
     (if appear_cost p \<noteq> None then [(''Appear'', Appear (appear_cost p))] else []) @
     (if disappear_cost p \<noteq> None then [(''Disappear'', Disappear (disappear_cost p))] else []) @
     (if division_cost p \<noteq> None then [(''Split'', Split (division_cost p))] else []) @
     (if merge_cost p \<noteq> None then [(''Merge'', Merge (merge_cost p))] else []) @
     (if distance_weight p \<noteq> None
      then [(''distance'', EdgeSelection (distance_weight p) DISTANCE (distance_offset p))]
      else []) @
     (if iou_weight p \<noteq> None
      then [(''iou'', EdgeSelection (iou_weight p) IOU (iou_offset p))]
      else [])"

subsection \<open>\<open>motile_solver.py\<close>: \<open>solve\<close>\<close>

text \<open>
  The functions of the tracking library that \<open>solve\<close> calls are parameters of the
  model, and so is the clock: \<open>time_time n\<close> is what the \<open>n\<close>-th reading of
  \<open>time.time()\<close> returns. \<open>solve\<close> returns its result together with the calls it made,
  in order, and with the records it handed to the logger.
\<close>

record ('seg, 'g, 'c, 'sol, 'tg, 'nx) library =
  get_candidate_graph :: "'seg \<Rightarrow> real \<Rightarrow> bool \<Rightarrow> bool \<Rightarrow> 'g \<times> 'c"
  number_of_nodes :: "'g \<Rightarrow> nat"
  solver_solve :: "'g Solver \<Rightarrow> bool \<Rightarrow> 'sol"
  get_selected_subgraph :: "'g Solver \<Rightarrow> 'sol \<Rightarrow> 'tg"
  graph_to_nx :: "'tg \<Rightarrow> 'nx"
  time_time :: "nat \<Rightarrow> real"

datatype ('seg, 'g, 'sol, 'tg) step =
    Get_candidate_graph 'seg real bool bool
  | Construct_solver 'g SolverParams
  | Solver_solve "'g Solver" bool
  | Get_selected_subgraph "'g Solver" 'sol
  | Graph_to_nx 'tg

datatype log_record =
    Debug_cand_graph_nodes nat
  | Info_solution_took real

definition solve ::
  "('seg, 'g, 'c, 'sol, 'tg, 'nx) library \<Rightarrow> SolverParams \<Rightarrow> 'seg \<Rightarrow>
     py_error + ('nx \<times> ('seg, 'g, 'sol, 'tg) step list \<times> log_record list)" where
  "solve lib solver_params segmentation =
     (let iou = (iou_weight solver_params \<noteq> None);
          (cand_graph, _) =
             get_candidate_graph lib segmentation (max_edge_distance solver_params) iou False;
          calls = [Get_candidate_graph segmentation (max_edge_distance solver_params) iou False];
          logged = [Debug_cand_graph_nodes (number_of_nodes lib cand_graph)];
          calls = calls @ [Construct_solver cand_graph solver_params]
      in
      bind_result (construct_solver cand_graph solver_params) (\<lambda>solver.
        let start_time = time_time lib 0;
            solution = solver_solve lib solver True;
            calls = calls @ [Solver_solve solver True];
            logged = logged @ [Info_solution_took (time_time lib 1 - start_time)];
            solution_graph = get_selected_subgraph lib solver solution;
            calls = calls @ [Get_selected_subgraph solver solution];
            solution_nx_graph = graph_to_nx lib solution_graph;
            calls = calls @ [Graph_to_nx solution_graph]
        in Inr (solution_nx_graph, calls, logged)))"

fun candidate_graph_requests ::
  "('seg, 'g, 'sol, 'tg) step list \<Rightarrow> ('seg \<times> real \<times> bool \<times> bool) list" where
  "candidate_graph_requests [] = []"
| "candidate_graph_requests (Get_candidate_graph seg d iou multihypo # cs) =
     (seg, d, iou, multihypo) # candidate_graph_requests cs"
| "candidate_graph_requests (_ # cs) = candidate_graph_requests cs"

fun solved_solvers :: "('seg, 'g, 'sol, 'tg) step list \<Rightarrow> 'g Solver list" where
  "solved_solvers [] = []"
| "solved_solvers (Solver_solve solver verbose # cs) = solver # solved_solvers cs"
| "solved_solvers (_ # cs) = solved_solvers cs"

text \<open>What a cost constructor was given: the argument behind the \<open>None\<close> test of its
  branch, and all its numeric arguments.\<close>

fun guarded_argument :: "cost \<Rightarrow> real option" where
  "guarded_argument (Appear a) = a"
| "guarded_argument (Disappear a) = a"
| "guarded_argument (Split a) = a"
| "guarded_argument (Merge a) = a"
| "guarded_argument (EdgeSelection w _ _) = w"

fun arguments :: "cost \<Rightarrow> real option list" where
  "arguments (Appear a) = [a]"
| "arguments (Disappear a) = [a]"
| "arguments (Split a) = [a]"
| "arguments (Merge a) = [a]"
| "arguments (EdgeSelection w _ c) = [w, c]"

text \<open>A parameter value with every field set, for the concrete instances below.\<close>

definition example_params :: SolverParams where
  "example_params =
     \<lparr>max_edge_distance = 50, max_children = 2, max_parents = 1,
      appear_cost = Some 30, disappear_cost = Some 30, division_cost = Some 20,
      merge_cost = Some 20, distance_weight = Some 1, distance_offset = Some (- 20),
      iou_weight = Some (- 5), iou_offset = Some 0\<rparr>"

subsection \<open>Arrays, layers and combo boxes\<close>

text \<open>
  A numpy array is its shape and its elements in row-major order. \<open>np.expand_dims\<close>
  with a non-negative axis inserts an axis of length one at that position and raises
  when the position is beyond the end of the shape. A napari layer has a name, a class
  and its data; the viewer's layer list is indexed by name and raises \<open>KeyError\<close> for
  a name it does not hold. A \<open>QComboBox\<close> keeps its items and the index of the current
  one (\<open>-1\<close> when there is none); the first item added to an empty box becomes the
  current one.
\<close>

record ndarray =
  shape :: "nat list"
  elements :: "int list"

definition expand_dims :: "ndarray \<Rightarrow> nat \<Rightarrow> py_error + ndarray" where
  "expand_dims a axis =
     (if axis \<le> length (shape a)
      then Inr (a\<lparr>shape := take axis (shape a) @ [1] @ drop axis (shape a)\<rparr>)
      else Inl AxisError)"

datatype layer_class = Labels | Image_layer | Points_layer | Tracks_layer

record Layer =
  layer_name :: string
  layer_class :: layer_class
  layer_data :: ndarray

definition layers_getitem :: "Layer list \<Rightarrow> string \<Rightarrow> py_error + Layer" where
  "layers_getitem layers n =
     (case find (\<lambda>layer. layer_name layer = n) layers of
        None \<Rightarrow> Inl KeyError
      | Some layer \<Rightarrow> Inr layer)"

record QComboBox =
  items :: "string list"
  currentIndex :: int

definition QComboBox_init :: QComboBox where
  "QComboBox_init = \<lparr>items = [], currentIndex = - 1\<rparr>"

definition addItem :: "string \<Rightarrow> QComboBox \<Rightarrow> QComboBox" where
  "addItem t box =
     \<lparr>items = items box @ [t],
      currentIndex = (if items box = [] then 0 else currentIndex box)\<rparr>"

definition clear :: "QComboBox \<Rightarrow> QComboBox" where
  "clear box = QComboBox_init"

definition currentText :: "QComboBox \<Rightarrow> string" where
  "currentText box =
     (if 0 \<le> currentIndex box \<and> currentIndex box < int (length (items box))
      then items box ! nat (currentIndex box) else [])"

text \<open>The loop that both widgets run over the layers, and the sentinel entry.\<close>

definition add_labels_layers :: "Layer list \<Rightarrow> QComboBox \<Rightarrow> QComboBox" where
  "add_labels_layers layers box =
     (let box = fold (\<lambda>layer box. if layer_class layer = Labels
                                    then addItem (layer_name layer) box else box) layers box
      in if length (items box) = 0 then addItem ''None'' box else box)"

subsection \<open>Python objects that are shared: the store\<close>

text \<open>
  Parameter objects are mutable and several parts of a widget hold references to
  them, so they live in a store: \<open>objects\<close> maps an address to the object there, and
  every address below \<open>next_free\<close> is in use. \<open>copy_object\<close> is pydantic's \<open>copy()\<close>:
  a new object with the same field values.
\<close>

record 'p store =
  objects :: "nat \<Rightarrow> 'p"
  next_free :: nat

definition alloc :: "'p \<Rightarrow> 'p store \<Rightarrow> nat \<times> 'p store" where
  "alloc obj st =
     (next_free st, \<lparr>objects = (objects st)(next_free st := obj), next_free = Suc (next_free st)\<rparr>)"

definition copy_object :: "nat \<Rightarrow> 'p store \<Rightarrow> nat \<times> 'p store" where
  "copy_object a st = alloc (objects st a) st"

definition setattr_at :: "nat \<Rightarrow> ('p \<Rightarrow> 'p) \<Rightarrow> 'p store \<Rightarrow> 'p store" where
  "setattr_at a assign st = st\<lparr>objects := (objects st)(a := assign (objects st a))\<rparr>"

subsection \<open>\<open>widgets/run_editor.py\<close>\<close>

text \<open>
  The editor holds the text of its run name field, the layers it was given, its layer
  selection box and a reference to the parameter object of its parameter widget. The
  layers are the viewer's layer list, which \<open>get_labels_layer\<close> indexes by name.
  The parameter widget (\<open>widgets/solver_params.py\<close>, not among the sources) is used for
  its attribute \<open>solver_params\<close> only. A warning that \<open>get_run\<close> issues is not recorded.
\<close>

record RunEditor =
  re_run_name :: string
  re_layers :: "Layer list"
  re_layer_selection_box :: QComboBox
  re_solver_params :: nat

text \<open>
  Modelled from the spec: the class \<open>MotileRun\<close> (\<open>backend/motile_run.py\<close>) is not among
  the sources. The spec's run object ``bundles a name, parameter snapshot, and
  segmentation input/output''; \<open>get_run\<close> constructs it from exactly a run name, a
  parameter object and an input segmentation, and it is the record of these three.
\<close>

record MotileRun =
  mr_run_name :: string
  mr_solver_params :: nat
  mr_input_segmentation :: ndarray

definition update_labels_layers :: "Layer list \<Rightarrow> RunEditor \<Rightarrow> RunEditor" where
  "update_labels_layers layers ed =
     (let ed = ed\<lparr>re_layers := layers\<rparr>;
          ed = ed\<lparr>re_layer_selection_box := clear (re_layer_selection_box ed)\<rparr>
      in ed\<lparr>re_layer_selection_box :=
               add_labels_layers (re_layers ed) (re_layer_selection_box ed)\<rparr>)"

definition RunEditor_get_labels_layer :: "RunEditor \<Rightarrow> py_error + Layer option" where
  "RunEditor_get_labels_layer ed =
     (let layer_name = currentText (re_layer_selection_box ed)
      in if layer_name = ''None'' then Inr None
         else bind_result (layers_getitem (re_layers ed) layer_name) (\<lambda>layer. Inr (Some layer)))"

definition RunEditor_get_run_name :: "RunEditor \<Rightarrow> string" where
  "RunEditor_get_run_name ed = re_run_name ed"

definition get_run :: "RunEditor \<Rightarrow> 'p store \<Rightarrow> py_error + (MotileRun option \<times> 'p store)" where
  "get_run ed st =
     (let run_name = RunEditor_get_run_name ed
      in bind_result (RunEditor_get_labels_layer ed) (\<lambda>input_layer.
           case input_layer of
             None \<Rightarrow> Inr (None, st)
           | Some layer \<Rightarrow>
               bind_result (expand_dims (layer_data layer) 1) (\<lambda>input_seg.
                 let (params, st) = copy_object (re_solver_params ed) st
                 in Inr (Some \<lparr>mr_run_name = run_name, mr_solver_params = params,
                                mr_input_segmentation = input_seg\<rparr>, st))))"

text \<open>What the editor does to its parameter object afterwards: attribute assignments,
  one after the other.\<close>

definition assign_all :: "nat \<Rightarrow> ('p \<Rightarrow> 'p) list \<Rightarrow> 'p store \<Rightarrow> 'p store" where
  "assign_all a assigns st = fold (setattr_at a) assigns st"

subsection \<open>\<open>_motile_widget.py\<close>: spin boxes and enable controls\<close>

text \<open>
  The parameter names, with attribute access by name. A spin box for an integer
  parameter shows whole numbers, so a spin box value is a real number throughout and
  the integer parameters take its integer part.
\<close>

datatype data_param = Max_edge_distance | Max_children | Max_parents

datatype optional_param =
    Appear_cost | Disappear_cost | Division_cost | Merge_cost
  | Distance_weight | Distance_offset | Iou_weight | Iou_offset

fun getattr_data :: "data_param \<Rightarrow> SolverParams \<Rightarrow> real" where
  "getattr_data Max_edge_distance p = max_edge_distance p"
| "getattr_data Max_children p = of_int (max_children p)"
| "getattr_data Max_parents p = of_int (max_parents p)"

fun setattr_data :: "data_param \<Rightarrow> real \<Rightarrow> SolverParams \<Rightarrow> SolverParams" where
  "setattr_data Max_edge_distance v p = p\<lparr>max_edge_distance := v\<rparr>"
| "setattr_data Max_children v p = p\<lparr>max_children := \<lfloor>v\<rfloor>\<rparr>"
| "setattr_data Max_parents v p = p\<lparr>max_parents := \<lfloor>v\<rfloor>\<rparr>"

fun getattr_optional :: "optional_param \<Rightarrow> SolverParams \<Rightarrow> real option" where
  "getattr_optional Appear_cost p = appear_cost p"
| "getattr_optional Disappear_cost p = disappear_cost p"
| "getattr_optional Division_cost p = division_cost p"
| "getattr_optional Merge_cost p = merge_cost p"
| "getattr_optional Distance_weight p = distance_weight p"
| "getattr_optional Distance_offset p = distance_offset p"
| "getattr_optional Iou_weight p = iou_weight p"
| "getattr_optional Iou_offset p = iou_offset p"

fun setattr_optional :: "optional_param \<Rightarrow> real option \<Rightarrow> SolverParams \<Rightarrow> SolverParams" where
  "setattr_optional Appear_cost v p = p\<lparr>appear_cost := v\<rparr>"
| "setattr_optional Disappear_cost v p = p\<lparr>disappear_cost := v\<rparr>"
| "setattr_optional Division_cost v p = p\<lparr>division_cost := v\<rparr>"
| "setattr_optional Merge_cost v p = p\<lparr>merge_cost := v\<rparr>"
| "setattr_optional Distance_weight v p = p\<lparr>distance_weight := v\<rparr>"
| "setattr_optional Distance_offset v p = p\<lparr>distance_offset := v\<rparr>"
| "setattr_optional Iou_weight v p = p\<lparr>iou_weight := v\<rparr>"
| "setattr_optional Iou_offset v p = p\<lparr>iou_offset := v\<rparr>"

text \<open>
  The toolkit's spin box: \<open>setValue\<close> rounds to the box's decimals, a tie away from
  zero, bounds the result by the box's range, and emits \<open>valueChanged\<close> when the shown
  value changes. The spin box of an integer parameter takes a 32-bit integer:
  \<open>setValue\<close> with an integer outside that range raises \<open>OverflowError\<close> and changes
  nothing. An exception that a slot raises is the outcome of the emission that ran the
  slot: the slots after it are not run.
  \<open>setEnabled\<close> delivers an \<open>EnabledChange\<close> event when the enabled state changes, and
  \<open>setChecked\<close> emits the state change signal when the checked state changes. A signal
  runs its slots at once, in the order they were connected.

  \<open>connect_to_param\<close> binds the signals of a spin box to the parameter object it is
  given: \<open>ps_bound\<close> is the address of that object. \<open>valueChanged\<close> and \<open>enable_signal\<close>
  assign the emitted value to the parameter, \<open>disable_signal\<close> assigns \<open>None\<close>.
\<close>

definition spin_round :: "nat \<Rightarrow> real \<Rightarrow> real" where
  "spin_round decimals v =
     (if v < 0 then - of_int \<lfloor>- v * 10 ^ decimals + 1 / 2\<rfloor> / 10 ^ decimals
      else of_int \<lfloor>v * 10 ^ decimals + 1 / 2\<rfloor> / 10 ^ decimals)"

fun int_param :: "data_param \<Rightarrow> bool" where
  "int_param Max_edge_distance = False"
| "int_param Max_children = True"
| "int_param Max_parents = True"

definition int32_range :: "real \<Rightarrow> bool" where
  "int32_range v = (- 2147483648 \<le> v \<and> v \<le> 2147483647)"

definition spin_bound :: "real \<Rightarrow> real \<Rightarrow> real \<Rightarrow> real" where
  "spin_bound lo hi v = max lo (min hi v)"

record DataSpinBox =
  ds_param :: data_param
  ds_bound :: nat
  ds_decimals :: nat
  ds_minimum :: real
  ds_maximum :: real
  ds_shown :: real

record ParamSpinBox =
  ps_param :: optional_param
  ps_bound :: nat
  ps_enabled :: bool
  ps_minimum :: real
  ps_maximum :: real
  ps_shown :: real

definition DataSpinBox_setValue ::
  "real \<Rightarrow> DataSpinBox \<Rightarrow> SolverParams store \<Rightarrow>
     py_error + DataSpinBox \<times> SolverParams store" where
  "DataSpinBox_setValue v sb st =
     (if int_param (ds_param sb) \<and> \<not> int32_range v then Inl OverflowError
      else let v = spin_bound (ds_minimum sb) (ds_maximum sb) (spin_round (ds_decimals sb) v)
           in if v = ds_shown sb then Inr (sb, st)
              else Inr (sb\<lparr>ds_shown := v\<rparr>,
                        setattr_at (ds_bound sb) (setattr_data (ds_param sb) v) st))"

definition DataSpinBox_update_value ::
  "nat \<Rightarrow> DataSpinBox \<Rightarrow> SolverParams store \<Rightarrow>
     py_error + DataSpinBox \<times> SolverParams store" where
  "DataSpinBox_update_value solver_params sb st =
     DataSpinBox_setValue (getattr_data (ds_param sb) (objects st solver_params)) sb st"

definition setValue ::
  "real \<Rightarrow> ParamSpinBox \<Rightarrow> SolverParams store \<Rightarrow> ParamSpinBox \<times> SolverParams store" where
  "setValue v sb st =
     (let v = spin_bound (ps_minimum sb) (ps_maximum sb) (spin_round 1 v)
      in if v = ps_shown sb then (sb, st)
         else (sb\<lparr>ps_shown := v\<rparr>,
               setattr_at (ps_bound sb) (setattr_optional (ps_param sb) (Some v)) st))"

definition changeEvent :: "ParamSpinBox \<Rightarrow> SolverParams store \<Rightarrow> SolverParams store" where
  "changeEvent sb st =
     (if ps_enabled sb
      then setattr_at (ps_bound sb) (setattr_optional (ps_param sb) (Some (ps_shown sb))) st
      else setattr_at (ps_bound sb) (setattr_optional (ps_param sb) None) st)"

definition setEnabled ::
  "bool \<Rightarrow> ParamSpinBox \<Rightarrow> SolverParams store \<Rightarrow> ParamSpinBox \<times> SolverParams store" where
  "setEnabled b sb st =
     (if ps_enabled sb = b then (sb, st)
      else let sb = sb\<lparr>ps_enabled := b\<rparr> in (sb, changeEvent sb st))"

text \<open>
  An enable control is the \<open>EnableBox\<close> of a constant cost, with its one spin box, or the
  checkable \<open>EnableGroup\<close> of a feature cost, with the spin boxes of the weight and of
  the offset. A change of its checked state enables or disables its spin boxes
  (\<open>_on_toggle\<close> for the box, the toolkit for the children of the group), and
  \<open>_disable\<close> unchecks it. \<open>edit_spinbox\<close> is \<open>setValue\<close> on spin box \<open>i\<close> of the
  control, by the user or by the program.
\<close>

record EnableControl =
  ec_checked :: bool
  ec_spinboxes :: "ParamSpinBox list"

fun setEnabled_all ::
  "bool \<Rightarrow> ParamSpinBox list \<Rightarrow> SolverParams store \<Rightarrow>
     ParamSpinBox list \<times> SolverParams store" where
  "setEnabled_all b [] st = ([], st)"
| "setEnabled_all b (sb # sbs) st =
     (let (sb, st) = setEnabled b sb st;
          (sbs, st) = setEnabled_all b sbs st
      in (sb # sbs, st))"

definition on_toggle ::
  "EnableControl \<Rightarrow> SolverParams store \<Rightarrow> EnableControl \<times> SolverParams store" where
  "on_toggle ec st =
     (let (sbs, st) = (if ec_checked ec then setEnabled_all True (ec_spinboxes ec) st
                       else setEnabled_all False (ec_spinboxes ec) st)
      in (ec\<lparr>ec_spinboxes := sbs\<rparr>, st))"

definition setChecked ::
  "bool \<Rightarrow> EnableControl \<Rightarrow> SolverParams store \<Rightarrow> EnableControl \<times> SolverParams store" where
  "setChecked b ec st =
     (if ec_checked ec = b then (ec, st) else on_toggle (ec\<lparr>ec_checked := b\<rparr>) st)"

definition disable ::
  "EnableControl \<Rightarrow> SolverParams store \<Rightarrow> EnableControl \<times> SolverParams store" where
  "disable ec st = setChecked False ec st"

definition edit_spinbox ::
  "nat \<Rightarrow> real \<Rightarrow> EnableControl \<Rightarrow> SolverParams store \<Rightarrow> EnableControl \<times> SolverParams store" where
  "edit_spinbox i v ec st =
     (if i < length (ec_spinboxes ec)
      then let (sb, st) = setValue v (ec_spinboxes ec ! i) st
           in (ec\<lparr>ec_spinboxes := (ec_spinboxes ec)[i := sb]\<rparr>, st)
      else (ec, st))"

text \<open>
  \<open>update_value\<close> is the slot of spin box \<open>i\<close> of a control for the load button's update
  signal. For \<open>None\<close> it emits \<open>update_none_signal\<close>, whose slot is \<open>_disable\<close> of the
  control; otherwise it calls \<open>setValue\<close>. \<open>update_control\<close> runs the slots of the
  spin boxes of one control, \<open>update_controls\<close> those of all controls.
\<close>

definition update_value ::
  "nat \<Rightarrow> nat \<Rightarrow> EnableControl \<Rightarrow> SolverParams store \<Rightarrow> EnableControl \<times> SolverParams store" where
  "update_value i solver_params ec st =
     (if i < length (ec_spinboxes ec)
      then case getattr_optional (ps_param (ec_spinboxes ec ! i)) (objects st solver_params) of
             None \<Rightarrow> disable ec st
           | Some v \<Rightarrow> edit_spinbox i v ec st
      else (ec, st))"

definition update_control ::
  "nat \<Rightarrow> EnableControl \<Rightarrow> SolverParams store \<Rightarrow> EnableControl \<times> SolverParams store" where
  "update_control solver_params ec st =
     fold (\<lambda>i (ec, st). update_value i solver_params ec st)
       [0..<length (ec_spinboxes ec)] (ec, st)"

fun update_controls ::
  "nat \<Rightarrow> EnableControl list \<Rightarrow> SolverParams store \<Rightarrow>
     EnableControl list \<times> SolverParams store" where
  "update_controls solver_params [] st = ([], st)"
| "update_controls solver_params (ec # ecs) st =
     (let (ec, st) = update_control solver_params ec st;
          (ecs, st) = update_controls solver_params ecs st
      in (ec # ecs, st))"

fun update_data_spinboxes ::
  "nat \<Rightarrow> DataSpinBox list \<Rightarrow> SolverParams store \<Rightarrow>
     py_error + DataSpinBox list \<times> SolverParams store" where
  "update_data_spinboxes solver_params [] st = Inr ([], st)"
| "update_data_spinboxes solver_params (sb # sbs) st =
     bind_result (DataSpinBox_update_value solver_params sb st) (\<lambda>(sb, st).
     bind_result (update_data_spinboxes solver_params sbs st) (\<lambda>(sbs, st).
     Inr (sb # sbs, st)))"

subsection \<open>Runs on disk\<close>

text \<open>
  Modelled from the spec: the class \<open>Run\<close> (\<open>run.py\<close>) is not among the sources. The
  spec describes a run as ``a named bundle of parameters and segmentation/tracking
  results persisted to disk'', with ``save/load to a directory''. The widget gives a run
  its name and its parameters only, so a saved run is these two; the directories under
  the base path are an association list from directory names to saved runs. The name
  of the directory that \<open>save\<close> writes is its choice and is an argument here; \<open>load\<close>
  raises for a directory that holds no run.
\<close>

record Run =
  run_name :: string
  params :: SolverParams


definition Run_load :: "(string \<times> Run) list \<Rightarrow> string \<Rightarrow> py_error + Run" where
  "Run_load fs run_dir =
     (case map_of fs run_dir of None \<Rightarrow> Inl FileNotFoundError | Some run \<Rightarrow> Inr run)"

text \<open>\<open>Path.stem\<close>: the name without its last suffix; a leading or a trailing dot
  starts no suffix.\<close>

definition stem :: "string \<Rightarrow> string" where
  "stem n =
     (let ext = takeWhile (\<lambda>c. c \<noteq> CHR ''.'') (rev n);
          rest = dropWhile (\<lambda>c. c \<noteq> CHR ''.'') (rev n)
      in if 2 \<le> length rest \<and> ext \<noteq> [] then rev (tl rest) else n)"

subsection \<open>\<open>_motile_widget.py\<close>: \<open>MotileWidget\<close>\<close>

text \<open>
  The widget's state: the viewer's layers, the reference \<open>self.solver_params\<close>, the
  layer selection box, the text of the run name field, whether the running label is
  shown, the selection box of saved runs, the parameter objects that the load button's
  update signal has carried, and the spin boxes and enable controls in the order they
  were created, which is the order their slots are connected to the update signal.
\<close>

record MotileWidget =
  viewer_layers :: "Layer list"
  mw_solver_params :: nat
  mw_layer_selection_box :: QComboBox
  mw_run_name :: string
  running_label_visible :: bool
  load_tracks_selection :: QComboBox
  update_signal_emitted :: "nat list"
  data_spinboxes :: "DataSpinBox list"
  enable_controls :: "EnableControl list"

definition ui_select_labels_layer :: "Layer list \<Rightarrow> QComboBox" where
  "ui_select_labels_layer layers = add_labels_layers layers QComboBox_init"

definition get_labels_layer :: "MotileWidget \<Rightarrow> py_error + Layer option" where
  "get_labels_layer w =
     (let curr_text = currentText (mw_layer_selection_box w)
      in if curr_text = ''None'' then Inr None
         else bind_result (layers_getitem (viewer_layers w) curr_text) (\<lambda>layer. Inr (Some layer)))"

definition list_runs :: "(string \<times> Run) list \<Rightarrow> string list" where
  "list_runs fs = map (\<lambda>(d, run). stem d) fs"

definition ui_load_tracks_selection :: "(string \<times> Run) list \<Rightarrow> QComboBox" where
  "ui_load_tracks_selection fs =
     (let box = fold addItem (list_runs fs) QComboBox_init
      in if length (items box) = 0 then addItem ''None'' box else box)"

text \<open>\<open>_param_spinbox\<close>: the field's default is shown before the signals are connected.
  The toolkit refuses \<open>None\<close> as a spin box value, and an integer beyond 32 bits as the
  value of an integer spin box.\<close>

definition param_spinbox_data ::
  "SolverParams \<Rightarrow> nat \<Rightarrow> data_param \<Rightarrow> py_error + DataSpinBox" where
  "param_spinbox_data defaults solver_params n =
     (let decimals = (if int_param n then 0 else 1);
          max_val = 10000;
          min_val = 0
      in if int_param n \<and> \<not> int32_range (getattr_data n defaults) then Inl OverflowError
         else Inr \<lparr>ds_param = n, ds_bound = solver_params, ds_decimals = decimals,
                   ds_minimum = min_val, ds_maximum = max_val,
                   ds_shown = spin_bound min_val max_val
                                (spin_round decimals (getattr_data n defaults))\<rparr>)"

fun data_spinboxes_for ::
  "SolverParams \<Rightarrow> nat \<Rightarrow> data_param list \<Rightarrow> py_error + DataSpinBox list" where
  "data_spinboxes_for defaults solver_params [] = Inr []"
| "data_spinboxes_for defaults solver_params (n # ns) =
     bind_result (param_spinbox_data defaults solver_params n) (\<lambda>sb.
     bind_result (data_spinboxes_for defaults solver_params ns) (\<lambda>sbs.
     Inr (sb # sbs)))"

definition param_spinbox ::
  "SolverParams \<Rightarrow> nat \<Rightarrow> bool \<Rightarrow> optional_param \<Rightarrow> py_error + ParamSpinBox" where
  "param_spinbox defaults solver_params negative n =
     (let max_val = 10000;
          min_val = (if negative then - 1 * max_val else 0)
      in case getattr_optional n defaults of
           None \<Rightarrow> Inl TypeError
         | Some d \<Rightarrow>
             Inr \<lparr>ps_param = n, ps_bound = solver_params, ps_enabled = True,
                  ps_minimum = min_val, ps_maximum = max_val,
                  ps_shown = spin_bound min_val max_val (spin_round 1 d)\<rparr>)"

fun enable_control ::
  "SolverParams \<Rightarrow> nat \<Rightarrow> bool \<Rightarrow> optional_param list \<Rightarrow> py_error + EnableControl" where
  "enable_control defaults solver_params negative [] =
     Inr \<lparr>ec_checked = True, ec_spinboxes = []\<rparr>"
| "enable_control defaults solver_params negative (n # ns) =
     bind_result (param_spinbox defaults solver_params negative n) (\<lambda>sb.
     bind_result (enable_control defaults solver_params negative ns) (\<lambda>ec.
     Inr (ec\<lparr>ec_spinboxes := sb # ec_spinboxes ec\<rparr>)))"

fun enable_controls_for ::
  "SolverParams \<Rightarrow> nat \<Rightarrow> bool \<Rightarrow> optional_param list list \<Rightarrow>
     py_error + EnableControl list" where
  "enable_controls_for defaults solver_params negative [] = Inr []"
| "enable_controls_for defaults solver_params negative (ns # nss) =
     bind_result (enable_control defaults solver_params negative ns) (\<lambda>ec.
     bind_result (enable_controls_for defaults solver_params negative nss) (\<lambda>ecs.
     Inr (ec # ecs)))"

definition MotileWidget_init ::
  "SolverParams \<Rightarrow> Layer list \<Rightarrow> (string \<times> Run) list \<Rightarrow> SolverParams store \<Rightarrow>
     py_error + (MotileWidget \<times> SolverParams store)" where
  "MotileWidget_init defaults layers fs st =
     (let (solver_params, st) = alloc defaults st;
          data_params = [Max_edge_distance, Max_children, Max_parents];
          constant_costs = [[Appear_cost], [Disappear_cost], [Division_cost], [Merge_cost]];
          variable_costs = [[Distance_weight, Distance_offset], [Iou_weight, Iou_offset]]
      in
      bind_result (data_spinboxes_for defaults solver_params data_params) (\<lambda>spinboxes.
      bind_result (enable_controls_for defaults solver_params False constant_costs) (\<lambda>boxes.
      bind_result (enable_controls_for defaults solver_params True variable_costs) (\<lambda>groups.
      Inr (\<lparr>viewer_layers = layers,
             mw_solver_params = solver_params,
             mw_layer_selection_box = ui_select_labels_layer layers,
             mw_run_name = ''tracks'',
             running_label_visible = False,
             load_tracks_selection = ui_load_tracks_selection fs,
             update_signal_emitted = [],
             data_spinboxes = spinboxes,
             enable_controls = boxes @ groups\<rparr>, st)))))"

text \<open>What the user does to an enable control or to a spin box of the widget.\<close>

definition toggle_control ::
  "nat \<Rightarrow> bool \<Rightarrow> MotileWidget \<Rightarrow> SolverParams store \<Rightarrow> MotileWidget \<times> SolverParams store" where
  "toggle_control k b w st =
     (if k < length (enable_controls w)
      then let (ec, st) = setChecked b (enable_controls w ! k) st
           in (w\<lparr>enable_controls := (enable_controls w)[k := ec]\<rparr>, st)
      else (w, st))"

definition edit_control ::
  "nat \<Rightarrow> nat \<Rightarrow> real \<Rightarrow> MotileWidget \<Rightarrow> SolverParams store \<Rightarrow>
     MotileWidget \<times> SolverParams store" where
  "edit_control k i v w st =
     (if k < length (enable_controls w)
      then let (ec, st) = edit_spinbox i v (enable_controls w ! k) st
           in (w\<lparr>enable_controls := (enable_controls w)[k := ec]\<rparr>, st)
      else (w, st))"

definition emit_update_signal ::
  "nat \<Rightarrow> MotileWidget \<Rightarrow> SolverParams store \<Rightarrow>
     py_error + MotileWidget \<times> SolverParams store" where
  "emit_update_signal solver_params w st =
     (let w = w\<lparr>update_signal_emitted := update_signal_emitted w @ [solver_params]\<rparr>
      in bind_result (update_data_spinboxes solver_params (data_spinboxes w) st) (\<lambda>(ds, st).
           let (ecs, st) = update_controls solver_params (enable_controls w) st
           in Inr (w\<lparr>data_spinboxes := ds, enable_controls := ecs\<rparr>, st)))"


definition set_run_name :: "string \<Rightarrow> MotileWidget \<Rightarrow> MotileWidget" where
  "set_run_name n w = w\<lparr>mw_run_name := n\<rparr>"


definition load_run ::
  "(string \<times> Run) list \<Rightarrow> MotileWidget \<Rightarrow> SolverParams store \<Rightarrow>
     py_error + (MotileWidget \<times> SolverParams store)" where
  "load_run fs w st =
     (let run_dir = currentText (load_tracks_selection w)
      in if run_dir = ''None'' then Inr (w, st)
         else bind_result (Run_load fs run_dir) (\<lambda>run.
                let w = set_run_name (run_name run) w;
                    (loaded, st) = alloc (params run) st;
                    w = w\<lparr>mw_solver_params := loaded\<rparr>
                in emit_update_signal (mw_solver_params w) w st))"

text \<open>
  \<open>_generate_tracks\<close> returns the widget and, when it started one, the worker's
  arguments. The body of the worker is \<open>solve_with_motile\<close>. A local name that was never
  assigned is \<open>None\<close> in the model, and reading it raises. \<open>MotileSolver\<close> and the two
  conversions of the toolbox are parameters; the calls made are returned with the
  result, also when the result is an exception.
\<close>

definition generate_tracks :: "MotileWidget \<Rightarrow> py_error + (MotileWidget \<times> (ndarray \<times> nat) option)" where
  "generate_tracks w =
     bind_result (get_labels_layer w) (\<lambda>labels_layer.
       case labels_layer of
         None \<Rightarrow> Inr (w, None)
       | Some layer \<Rightarrow>
           let segmentation = layer_data layer;
               w = w\<lparr>running_label_visible := True\<rparr>
           in Inr (w, Some (segmentation, mw_solver_params w)))"

record ('p, 'ms, 'nx, 'tl) worker_library =
  MotileSolver :: "'p \<Rightarrow> 'ms"
  MotileSolver_solve :: "'ms \<Rightarrow> ndarray \<Rightarrow> string list \<Rightarrow> 'nx"
  relabel_segmentation :: "'nx \<Rightarrow> ndarray \<Rightarrow> ndarray"
  to_napari_tracks_layer :: "'nx \<Rightarrow> string list \<Rightarrow> 'tl"

datatype ('p, 'ms, 'nx) worker_call =
    Call_MotileSolver 'p
  | Call_solve 'ms ndarray "string list"
  | Call_relabel_segmentation 'nx ndarray
  | Call_to_napari_tracks_layer 'nx "string list"

definition solve_with_motile ::
  "('p, 'ms, 'nx, 'tl) worker_library \<Rightarrow> ndarray \<Rightarrow> 'p \<Rightarrow>
     (py_error + ('nx \<times> ndarray \<times> 'tl \<times> 'p)) \<times> ('p, 'ms, 'nx) worker_call list" where
  "solve_with_motile lib segmentation solver_params =
     (let position_keys =
            (if length (shape segmentation) = 3 then Some [''y'', ''x'']
             else if length (shape segmentation) = 4 then Some [''z'', ''y'', ''x'']
             else None);
          solver = MotileSolver lib solver_params;
          calls = [Call_MotileSolver solver_params]
      in case position_keys of
           None \<Rightarrow> (Inl UnboundLocalError, calls)
         | Some position_keys \<Rightarrow>
             let solution_nx_graph = MotileSolver_solve lib solver segmentation position_keys;
                 calls = calls @ [Call_solve solver segmentation position_keys];
                 relabeled_segmentation =
                   relabel_segmentation lib solution_nx_graph segmentation;
                 calls = calls @ [Call_relabel_segmentation solution_nx_graph segmentation];
                 tracks_layer_info =
                   to_napari_tracks_layer lib solution_nx_graph position_keys;
                 calls = calls @ [Call_to_napari_tracks_layer solution_nx_graph position_keys]
             in (Inr (solution_nx_graph, relabeled_segmentation, tracks_layer_info,
                      solver_params), calls))"

text \<open>Every signal of the widget's spin boxes is bound to an object below address \<open>n\<close>.\<close>

definition bindings_below :: "nat \<Rightarrow> MotileWidget \<Rightarrow> bool" where
  "bindings_below n w =
     (list_all (\<lambda>sb. ds_bound sb < n) (data_spinboxes w) \<and>
      list_all (\<lambda>ec. list_all (\<lambda>sb. ps_bound sb < n) (ec_spinboxes ec)) (enable_controls w))"

subsection \<open>\<open>widgets/params_editor.py\<close>: \<open>OptionalEditableParam\<close>\<close>

text \<open>
  Modelled from the spec: the classes \<open>EditableParamValue\<close> and \<open>CompoundParamValue\<close>
  (\<open>param_values.py\<close>) are not among the sources. The spec describes ``per-parameter
  editable controls with enable/disable checkboxes, bound bidirectionally to the
  parameter model via UI-toolkit signal/slot mechanisms''. The value control is whether it
  is enabled and the value it shows, of a type that is left open (a number, or the
  pair of numbers of a compound parameter); \<open>get_value\<close> reads the shown value, and
  \<open>update_value\<close> shows a value and emits \<open>valueChanged\<close> when the shown value changes.

  A row of the editor is the check box \<open>param_label\<close> and the value control
  \<open>param_value\<close>. \<open>_params_group\<close> connects \<open>valueChanged\<close> of the row to the
  assignment of the emitted value to the row's parameter in the editor's
  \<open>solver_params\<close>; that parameter is the second component of the state here.
\<close>

record 'v EditableParamValue =
  pv_enabled :: bool
  pv_shown :: 'v

record 'v OptionalEditableParam =
  param_label_checked :: bool
  param_value :: "'v EditableParamValue"

definition EditableParamValue_update_value ::
  "'v \<Rightarrow> 'v OptionalEditableParam \<Rightarrow> 'v option \<Rightarrow> 'v OptionalEditableParam \<times> 'v option" where
  "EditableParamValue_update_value v row param =
     (if pv_shown (param_value row) = v then (row, param)
      else (row\<lparr>param_value := (param_value row)\<lparr>pv_shown := v\<rparr>\<rparr>, Some v))"

definition toggle_enable ::
  "bool \<Rightarrow> 'v OptionalEditableParam \<Rightarrow> 'v option \<Rightarrow> 'v OptionalEditableParam \<times> 'v option" where
  "toggle_enable checked row param =
     (let row = row\<lparr>param_value := (param_value row)\<lparr>pv_enabled := checked\<rparr>\<rparr>;
          v = (if checked then Some (pv_shown (param_value row)) else None)
      in (row, v))"

definition param_label_setChecked ::
  "bool \<Rightarrow> 'v OptionalEditableParam \<Rightarrow> 'v option \<Rightarrow> 'v OptionalEditableParam \<times> 'v option" where
  "param_label_setChecked b row param =
     (if param_label_checked row = b then (row, param)
      else toggle_enable b (row\<lparr>param_label_checked := b\<rparr>) param)"

definition update_from_params ::
  "'v option \<Rightarrow> 'v OptionalEditableParam \<Rightarrow> 'v option \<Rightarrow> 'v OptionalEditableParam \<times> 'v option" where
  "update_from_params param_val row param =
     (case param_val of
        None \<Rightarrow>
          let (row, param) = param_label_setChecked False row param;
              row = row\<lparr>param_value := (param_value row)\<lparr>pv_enabled := False\<rparr>\<rparr>
          in (row, param)
      | Some v \<Rightarrow>
          let (row, param) = param_label_setChecked True row param;
              row = row\<lparr>param_value := (param_value row)\<lparr>pv_enabled := True\<rparr>\<rparr>
          in EditableParamValue_update_value v row param)"

subsection \<open>Concrete states for the instances below\<close>

text \<open>
  A store whose one object is the example parameter value, the widget that
  \<open>MotileWidget_init\<close> builds over a viewer without layers and a base path without runs,
  and a run editor over one labels layer.
\<close>

definition empty_store :: "SolverParams store" where
  "empty_store = \<lparr>objects = (\<lambda>a. example_params), next_free = 0\<rparr>"

definition example_store :: "SolverParams store" where
  "example_store = \<lparr>objects = (\<lambda>a. example_params), next_free = 1\<rparr>"

definition example_widget :: MotileWidget where
  "example_widget =
     \<lparr>viewer_layers = [], mw_solver_params = 0,
      mw_layer_selection_box = \<lparr>items = [''None''], currentIndex = 0\<rparr>,
      mw_run_name = ''tracks'', running_label_visible = False,
      load_tracks_selection = \<lparr>items = [''None''], currentIndex = 0\<rparr>,
      update_signal_emitted = [],
      data_spinboxes =
        [\<lparr>ds_param = Max_edge_distance, ds_bound = 0, ds_decimals = 1,
            ds_minimum = 0, ds_maximum = 10000, ds_shown = 50\<rparr>,
         \<lparr>ds_param = Max_children, ds_bound = 0, ds_decimals = 0,
            ds_minimum = 0, ds_maximum = 10000, ds_shown = 2\<rparr>,
         \<lparr>ds_param = Max_parents, ds_bound = 0, ds_decimals = 0,
            ds_minimum = 0, ds_maximum = 10000, ds_shown = 1\<rparr>],
      enable_controls =
        [\<lparr>ec_checked = True,
            ec_spinboxes =
              [\<lparr>ps_param = Appear_cost, ps_bound = 0, ps_enabled = True,
                  ps_minimum = 0, ps_maximum = 10000, ps_shown = 30\<rparr>]\<rparr>,
         \<lparr>ec_checked = True,
            ec_spinboxes =
              [\<lparr>ps_param = Disappear_cost, ps_bound = 0, ps_enabled = True,
                  ps_minimum = 0, ps_maximum = 10000, ps_shown = 30\<rparr>]\<rparr>,
         \<lparr>ec_checked = True,
            ec_spinboxes =
              [\<lparr>ps_param = Division_cost, ps_bound = 0, ps_enabled = True,
                  ps_minimum = 0, ps_maximum = 10000, ps_shown = 20\<rparr>]\<rparr>,
         \<lparr>ec_checked = True,
            ec_spinboxes =
              [\<lparr>ps_param = Merge_cost, ps_bound = 0, ps_enabled = True,
                  ps_minimum = 0, ps_maximum = 10000, ps_shown = 20\<rparr>]\<rparr>,
         \<lparr>ec_checked = True,
            ec_spinboxes =
              [\<lparr>ps_param = Distance_weight, ps_bound = 0, ps_enabled = True,
                  ps_minimum = - 10000, ps_maximum = 10000, ps_shown = 1\<rparr>,
               \<lparr>ps_param = Distance_offset, ps_bound = 0, ps_enabled = True,
                  ps_minimum = - 10000, ps_maximum = 10000, ps_shown = - 20\<rparr>]\<rparr>,
         \<lparr>ec_checked = True,
            ec_spinboxes =
              [\<lparr>ps_param = Iou_weight, ps_bound = 0, ps_enabled = True,
                  ps_minimum = - 10000, ps_maximum = 10000, ps_shown = - 5\<rparr>,
               \<lparr>ps_param = Iou_offset, ps_bound = 0, ps_enabled = True,
                  ps_minimum = - 10000, ps_maximum = 10000, ps_shown = 0\<rparr>]\<rparr>]\<rparr>"

definition example_layer :: Layer where
  "example_layer =
     \<lparr>layer_name = ''seg'', layer_class = Labels,
      layer_data = \<lparr>shape = [2, 1, 2], elements = [0, 1, 1, 0]\<rparr>\<rparr>"

definition labelled_widget :: MotileWidget where
  "labelled_widget =
     example_widget\<lparr>viewer_layers := [example_layer],
                    mw_layer_selection_box := ui_select_labels_layer [example_layer]\<rparr>"

definition example_editor :: RunEditor where
  "example_editor =
     update_labels_layers [example_layer]
       \<lparr>re_run_name = ''tracks'', re_layers = [], re_layer_selection_box = QComboBox_init,
        re_solver_params = 0\<rparr>"

definition empty_editor :: RunEditor where
  "empty_editor =
     update_labels_layers []
       \<lparr>re_run_name = ''tracks'', re_layers = [], re_layer_selection_box = QComboBox_init,
        re_solver_params = 0\<rparr>"

text \<open>A base path that holds one saved run, and the widget built over it.\<close>

definition saved_runs :: "(string \<times> Run) list" where
  "saved_runs =
     [(''saved'', \<lparr>run_name = ''saved'', params = example_params\<lparr>appear_cost := Some 12\<rparr>\<rparr>)]"

definition loading_widget :: MotileWidget where
  "loading_widget =
     example_widget\<lparr>load_tracks_selection := \<lparr>items = [''saved''], currentIndex = 0\<rparr>\<rparr>"

subsection \<open>Properties of \<open>construct_solver\<close> and \<open>solve\<close>\<close>

lemma construct_solver_eq:
  "construct_solver cand_graph p =
     Inr \<lparr>track_graph = \<lparr>nx_graph = cand_graph, frame_attribute = TIME\<rparr>,
          constraints = [MaxChildren (max_children p), MaxParents (max_parents p)],
          cost_instances = wired_costs p\<rparr>"
  by (simp add: construct_solver_def wired_costs_def bind_result_def add_costs_def
      add_constraints_def Solver_init_def)

lemma iou_name_wired:
  "(''iou'' \<in> fst ` set (wired_costs p)) = (iou_weight p \<noteq> None)"
  by (auto simp: wired_costs_def)

lemma iou_cost_wired:
  "((''iou'', EdgeSelection (iou_weight p) IOU (iou_offset p)) \<in> set (wired_costs p))
     = (iou_weight p \<noteq> None)"
  by (auto simp: wired_costs_def)

lemma wired_guarded:
  "list_all (\<lambda>(n, c). guarded_argument c \<noteq> None) (wired_costs p)"
  by (simp add: wired_costs_def)

lemma wired_none_free:
  "list_all (\<lambda>(n, c). list_all (\<lambda>a. a \<noteq> None) (arguments c)) (wired_costs p) =
     ((distance_weight p \<noteq> None \<longrightarrow> distance_offset p \<noteq> None) \<and>
      (iou_weight p \<noteq> None \<longrightarrow> iou_offset p \<noteq> None))"
  by (simp add: wired_costs_def)

lemma solve_eq:
  "solve lib p seg =
     (let cand_graph = fst (get_candidate_graph lib seg (max_edge_distance p)
                              (iou_weight p \<noteq> None) False);
          solver = \<lparr>track_graph = \<lparr>nx_graph = cand_graph, frame_attribute = TIME\<rparr>,
                    constraints = [MaxChildren (max_children p), MaxParents (max_parents p)],
                    cost_instances = wired_costs p\<rparr>;
          solution = solver_solve lib solver True;
          solution_graph = get_selected_subgraph lib solver solution
      in Inr (graph_to_nx lib solution_graph,
              [Get_candidate_graph seg (max_edge_distance p) (iou_weight p \<noteq> None) False,
               Construct_solver cand_graph p,
               Solver_solve solver True,
               Get_selected_subgraph solver solution,
               Graph_to_nx solution_graph],
              [Debug_cand_graph_nodes (number_of_nodes lib cand_graph),
               Info_solution_took (time_time lib 1 - time_time lib 0)]))"
  by (simp add: solve_def construct_solver_eq bind_result_def Let_def split: prod.splits)

text \<open>
  C1. For every parameter value, \<open>construct_solver\<close> returns a solver whose cost terms
  are exactly those of the optional parameters that are set, in the order of the
  source: an \<open>Appear\<close> cost iff \<open>appear_cost\<close> is not \<open>None\<close>, a \<open>Disappear\<close> cost iff
  \<open>disappear_cost\<close> is not \<open>None\<close>, a \<open>Split\<close> cost with constant \<open>division_cost\<close> iff
  \<open>division_cost\<close> is not \<open>None\<close>, a \<open>Merge\<close> cost with constant \<open>merge_cost\<close> iff
  \<open>merge_cost\<close> is not \<open>None\<close>, an \<open>EdgeSelection\<close> cost named \<open>distance\<close> with weight
  \<open>distance_weight\<close>, attribute \<open>DISTANCE\<close> and constant \<open>distance_offset\<close> iff
  \<open>distance_weight\<close> is not \<open>None\<close>, and an \<open>EdgeSelection\<close> cost named \<open>iou\<close> with
  weight \<open>iou_weight\<close>, attribute \<open>IOU\<close> and constant \<open>iou_offset\<close> iff \<open>iou_weight\<close> is
  not \<open>None\<close>. A parameter that is \<open>None\<close> contributes no cost term.
\<close>

theorem construct_solver_cost_terms:
  "\<exists>solver. construct_solver cand_graph p = Inr solver \<and>
     cost_instances solver =
       (if appear_cost p \<noteq> None then [(''Appear'', Appear (appear_cost p))] else []) @
       (if disappear_cost p \<noteq> None then [(''Disappear'', Disappear (disappear_cost p))]
        else []) @
       (if division_cost p \<noteq> None then [(''Split'', Split (division_cost p))] else []) @
       (if merge_cost p \<noteq> None then [(''Merge'', Merge (merge_cost p))] else []) @
       (if distance_weight p \<noteq> None
        then [(''distance'', EdgeSelection (distance_weight p) DISTANCE (distance_offset p))]
        else []) @
       (if iou_weight p \<noteq> None
        then [(''iou'', EdgeSelection (iou_weight p) IOU (iou_offset p))]
        else [])"
  by (simp add: construct_solver_eq wired_costs_def)

text \<open>
  C2. For every parameter value and segmentation, \<open>solve\<close> returns, and the calls it
  makes are these five, in this order, and no others: it builds the candidate graph
  from the segmentation with the library, constructs the solver from the candidate
  graph and the parameters, runs the library's solver, extracts the selected subgraph
  from the solution, and converts that subgraph to a networkx graph, which is its
  result. Beside the calls it hands two records to the logger: the number of nodes of
  the candidate graph and the time the solver took.
\<close>

theorem solve_steps_in_order:
  "\<exists>cand_graph conflicts solver solution solution_graph.
     get_candidate_graph lib seg (max_edge_distance p) (iou_weight p \<noteq> None) False =
       (cand_graph, conflicts) \<and>
     construct_solver cand_graph p = Inr solver \<and>
     solver_solve lib solver True = solution \<and>
     get_selected_subgraph lib solver solution = solution_graph \<and>
     solve lib p seg =
       Inr (graph_to_nx lib solution_graph,
            [Get_candidate_graph seg (max_edge_distance p) (iou_weight p \<noteq> None) False,
             Construct_solver cand_graph p,
             Solver_solve solver True,
             Get_selected_subgraph solver solution,
             Graph_to_nx solution_graph],
            [Debug_cand_graph_nodes (number_of_nodes lib cand_graph),
             Info_solution_took (time_time lib 1 - time_time lib 0)])"
  by (cases "get_candidate_graph lib seg (max_edge_distance p) (iou_weight p \<noteq> None) False")
     (simp add: solve_eq construct_solver_eq Let_def)

text \<open>
  C3. For every parameter value, segmentation and library, \<open>solve\<close> asks the library
  for the candidate graph once, with \<open>max_edge_distance\<close> as the distance threshold,
  with IOU edge attributes requested exactly when \<open>iou_weight\<close> is not \<open>None\<close>, and with
  \<open>multihypo = False\<close>. The solver it runs is the one \<open>construct_solver\<close> builds over
  the graph that this request returned, what \<open>solve\<close> returns and logs is computed from
  that graph and that solver, and the solver carries the cost named \<open>iou\<close> exactly when
  IOU attributes were requested.
\<close>

theorem solve_candidate_graph_request:
  "\<exists>cand_graph conflicts solver.
     get_candidate_graph lib seg (max_edge_distance p) (iou_weight p \<noteq> None) False =
       (cand_graph, conflicts) \<and>
     construct_solver cand_graph p = Inr solver \<and>
     nx_graph (track_graph solver) = cand_graph \<and>
     (''iou'' \<in> set (map fst (cost_instances solver))) = (iou_weight p \<noteq> None) \<and>
     ((''iou'', EdgeSelection (iou_weight p) IOU (iou_offset p)) \<in> set (cost_instances solver))
       = (iou_weight p \<noteq> None) \<and>
     (\<exists>calls logged.
        solve lib p seg =
          Inr (graph_to_nx lib (get_selected_subgraph lib solver (solver_solve lib solver True)),
               calls, logged) \<and>
        candidate_graph_requests calls =
          [(seg, max_edge_distance p, iou_weight p \<noteq> None, False)] \<and>
        solved_solvers calls = [solver] \<and>
        logged = [Debug_cand_graph_nodes (number_of_nodes lib cand_graph),
                  Info_solution_took (time_time lib 1 - time_time lib 0)])"
  by (cases "get_candidate_graph lib seg (max_edge_distance p) (iou_weight p \<noteq> None) False")
     (simp add: solve_eq construct_solver_eq Let_def iou_name_wired iou_cost_wired)

text \<open>
  C8. For every parameter value, whichever optional parameters are \<open>None\<close>, the solver
  that \<open>construct_solver\<close> returns has exactly the two constraints
  \<open>MaxChildren(max_children)\<close> and \<open>MaxParents(max_parents)\<close>, added in this order to
  a solver over the track graph of the candidate graph with the time attribute as frame
  attribute.
\<close>

theorem construct_solver_constraints:
  "\<exists>solver. construct_solver cand_graph p = Inr solver \<and>
     constraints solver = [MaxChildren (max_children p), MaxParents (max_parents p)] \<and>
     track_graph solver = \<lparr>nx_graph = cand_graph, frame_attribute = TIME\<rparr>"
  by (simp add: construct_solver_eq)

text \<open>
  C7, as the code has it. For every parameter value \<open>construct_solver\<close> runs to
  completion and returns a solver (no cost name is registered twice). Each branch of the
  wiring tests one parameter, and that parameter reaches its cost constructor only when
  it is not \<open>None\<close>: the constant of \<open>Appear\<close>, \<open>Disappear\<close>, \<open>Split\<close> and \<open>Merge\<close> and
  the weight of both \<open>EdgeSelection\<close> costs. The offsets \<open>distance_offset\<close> and
  \<open>iou_offset\<close> are passed on untested, so no \<open>None\<close> at all reaches a cost
  constructor exactly when each offset is set whenever its weight is set.
\<close>

theorem construct_solver_returns_guarded:
  "\<exists>solver. construct_solver cand_graph p = Inr solver \<and>
     list_all (\<lambda>(n, c). guarded_argument c \<noteq> None) (cost_instances solver) \<and>
     (list_all (\<lambda>(n, c). list_all (\<lambda>a. a \<noteq> None) (arguments c)) (cost_instances solver) =
        ((distance_weight p \<noteq> None \<longrightarrow> distance_offset p \<noteq> None) \<and>
         (iou_weight p \<noteq> None \<longrightarrow> iou_offset p \<noteq> None)))"
  using wired_guarded [of p] wired_none_free [of p]
  by (simp add: construct_solver_eq)

theorem construct_solver_returns_guarded_witness:
  "\<exists>solver. construct_solver (0::nat) example_params = Inr solver \<and>
     list_all (\<lambda>(n, c). guarded_argument c \<noteq> None) (cost_instances solver) \<and>
     list_all (\<lambda>(n, c). list_all (\<lambda>a. a \<noteq> None) (arguments c)) (cost_instances solver)"
  using construct_solver_returns_guarded [of "0::nat" example_params]
  by (simp add: example_params_def)

text \<open>
  The claim as written fails: with the distance weight set and the distance offset
  \<open>None\<close>, the \<open>EdgeSelection\<close> constructor of the \<open>distance\<close> cost is given \<open>None\<close> as
  its constant.
\<close>

theorem construct_solver_none_offset_counterexample:
  "construct_solver (0::nat) (example_params\<lparr>distance_offset := None\<rparr>) =
     Inr \<lparr>track_graph = \<lparr>nx_graph = 0, frame_attribute = TIME\<rparr>,
          constraints = [MaxChildren 2, MaxParents 1],
          cost_instances =
            [(''Appear'', Appear (Some 30)), (''Disappear'', Disappear (Some 30)),
             (''Split'', Split (Some 20)), (''Merge'', Merge (Some 20)),
             (''distance'', EdgeSelection (Some 1) DISTANCE None),
             (''iou'', EdgeSelection (Some (- 5)) IOU (Some 0))]\<rparr> \<and>
   arguments (EdgeSelection (Some 1) DISTANCE None) = [Some 1, None]"
  by (simp add: construct_solver_eq wired_costs_def example_params_def)

subsection \<open>Properties of the layer selectors, of \<open>get_run\<close> and of the worker\<close>

lemma example_widget_init:
  "MotileWidget_init example_params [] [] empty_store = Inr (example_widget, example_store)"
  by (simp add: MotileWidget_init_def example_params_def empty_store_def example_store_def
      example_widget_def alloc_def bind_result_def param_spinbox_def param_spinbox_data_def
      spin_bound_def spin_round_def int32_range_def ui_select_labels_layer_def
      ui_load_tracks_selection_def
      list_runs_def add_labels_layers_def addItem_def QComboBox_init_def Let_def fun_eq_iff)

lemma items_fold_labels:
  "items (fold (\<lambda>layer box. if layer_class layer = Labels
                                then addItem (layer_name layer) box else box) layers box) =
     items box @ map layer_name (filter (\<lambda>l. layer_class l = Labels) layers)"
  by (induction layers arbitrary: box) (simp_all add: addItem_def)

lemma items_add_labels_layers:
  "items (add_labels_layers layers QComboBox_init) =
     (if filter (\<lambda>l. layer_class l = Labels) layers = [] then [''None'']
      else map layer_name (filter (\<lambda>l. layer_class l = Labels) layers))"
  by (simp add: add_labels_layers_def Let_def items_fold_labels addItem_def QComboBox_init_def)

lemma currentIndex_fold_labels:
  "currentIndex (fold (\<lambda>layer box. if layer_class layer = Labels
                                then addItem (layer_name layer) box else box) layers box) =
     (if items box = [] \<and> filter (\<lambda>l. layer_class l = Labels) layers \<noteq> [] then 0
      else currentIndex box)"
  by (induction layers arbitrary: box) (auto simp: addItem_def)

lemma currentText_no_labels:
  "filter (\<lambda>l. layer_class l = Labels) layers = [] \<Longrightarrow>
   currentText (add_labels_layers layers QComboBox_init) = ''None''"
  by (simp add: add_labels_layers_def Let_def items_fold_labels currentIndex_fold_labels
      addItem_def QComboBox_init_def currentText_def)

lemma get_labels_layer_None:
  "(get_labels_layer w = Inr None) = (currentText (mw_layer_selection_box w) = ''None'')"
  by (simp add: get_labels_layer_def layers_getitem_def bind_result_def Let_def
      split: option.splits)

lemma RunEditor_get_labels_layer_None:
  "(RunEditor_get_labels_layer ed = Inr None) =
     (currentText (re_layer_selection_box ed) = ''None'')"
  by (simp add: RunEditor_get_labels_layer_def layers_getitem_def bind_result_def Let_def
      split: option.splits)

lemma objects_setattr_at_other:
  "a \<noteq> b \<Longrightarrow> objects (setattr_at a f st) b = objects st b"
  by (simp add: setattr_at_def)

lemma objects_assign_all_other:
  "a \<noteq> b \<Longrightarrow> objects (assign_all a fs st) b = objects st b"
  unfolding assign_all_def
  by (induction fs arbitrary: st) (simp_all add: objects_setattr_at_other)

text \<open>
  C9. The layer selectors use \<open>None\<close> as a sentinel. The selection box of either widget
  lists the names of the labels layers, and the single entry \<open>None\<close>, which is then
  the current text, when there is no labels layer. \<open>get_labels_layer\<close> of either widget
  returns \<open>None\<close> exactly when the current text is \<open>None\<close>, and otherwise looks the
  layer up by the current text. When it returns \<open>None\<close>, \<open>_generate_tracks\<close> returns
  with the widget unchanged and no worker started, and \<open>get_run\<close> returns \<open>None\<close> with
  the store unchanged.
\<close>

theorem labels_layer_sentinel:
  "items (ui_select_labels_layer layers) =
     (if filter (\<lambda>l. layer_class l = Labels) layers = [] then [''None'']
      else map layer_name (filter (\<lambda>l. layer_class l = Labels) layers)) \<and>
   items (re_layer_selection_box (update_labels_layers layers ed)) =
     (if filter (\<lambda>l. layer_class l = Labels) layers = [] then [''None'']
      else map layer_name (filter (\<lambda>l. layer_class l = Labels) layers)) \<and>
   (filter (\<lambda>l. layer_class l = Labels) layers = [] \<longrightarrow>
      currentText (ui_select_labels_layer layers) = ''None'' \<and>
      currentText (re_layer_selection_box (update_labels_layers layers ed)) = ''None'') \<and>
   (get_labels_layer w = Inr None) = (currentText (mw_layer_selection_box w) = ''None'') \<and>
   (RunEditor_get_labels_layer ed = Inr None) =
     (currentText (re_layer_selection_box ed) = ''None'') \<and>
   (currentText (mw_layer_selection_box w) \<noteq> ''None'' \<longrightarrow>
      get_labels_layer w =
        (case find (\<lambda>l. layer_name l = currentText (mw_layer_selection_box w))
                (viewer_layers w) of
           None \<Rightarrow> Inl KeyError | Some l \<Rightarrow> Inr (Some l))) \<and>
   (currentText (re_layer_selection_box ed) \<noteq> ''None'' \<longrightarrow>
      RunEditor_get_labels_layer ed =
        (case find (\<lambda>l. layer_name l = currentText (re_layer_selection_box ed))
                (re_layers ed) of
           None \<Rightarrow> Inl KeyError | Some l \<Rightarrow> Inr (Some l))) \<and>
   (get_labels_layer w = Inr None \<longrightarrow> generate_tracks w = Inr (w, None)) \<and>
   (RunEditor_get_labels_layer ed = Inr None \<longrightarrow> get_run ed st = Inr (None, st))"
  by (simp add: ui_select_labels_layer_def update_labels_layers_def clear_def
      items_add_labels_layers currentText_no_labels get_labels_layer_None
      RunEditor_get_labels_layer_None)
     (simp add: get_labels_layer_def RunEditor_get_labels_layer_def generate_tracks_def
      get_run_def layers_getitem_def bind_result_def Let_def split: option.splits)

theorem labels_layer_sentinel_witness:
  "filter (\<lambda>l. layer_class l = Labels) ([] :: Layer list) = [] \<and>
   currentText (ui_select_labels_layer []) = ''None'' \<and>
   get_labels_layer example_widget = Inr None \<and>
   generate_tracks example_widget = Inr (example_widget, None) \<and>
   RunEditor_get_labels_layer empty_editor = Inr None \<and>
   get_run empty_editor example_store = Inr (None, example_store) \<and>
   currentText (re_layer_selection_box example_editor) \<noteq> ''None'' \<and>
   RunEditor_get_labels_layer example_editor = Inr (Some example_layer) \<and>
   currentText (mw_layer_selection_box labelled_widget) \<noteq> ''None'' \<and>
   get_labels_layer labelled_widget = Inr (Some example_layer)"
  using labels_layer_sentinel [of "[]" empty_editor example_widget example_store]
    labels_layer_sentinel [of "[]" example_editor labelled_widget example_store]
  by (simp add: example_widget_def labelled_widget_def empty_editor_def example_editor_def
      example_layer_def ui_select_labels_layer_def update_labels_layers_def
      add_labels_layers_def clear_def QComboBox_init_def addItem_def currentText_def Let_def)

text \<open>
  C6. A run holds a parameter snapshot. When \<open>get_run\<close> returns a run for an editor whose
  parameter object is in the store, the run has the editor's run name; its
  \<open>solver_params\<close> is a new object, not the editor's, with the field values of the
  editor's object at that moment; whatever attribute assignments are made to the
  editor's object afterwards, the run's object still has those values; and its
  \<open>input_segmentation\<close> is the data of the selected layer with an axis of length one
  inserted at position 1.
\<close>

theorem get_run_snapshot:
  assumes "get_run ed st = Inr (Some run, st')"
    and "re_solver_params ed < next_free st"
  shows "mr_run_name run = re_run_name ed \<and>
         objects st' (mr_solver_params run) = objects st (re_solver_params ed) \<and>
         mr_solver_params run \<noteq> re_solver_params ed \<and>
         objects (assign_all (re_solver_params ed) assigns st') (mr_solver_params run) =
           objects st (re_solver_params ed) \<and>
         (\<exists>layer. RunEditor_get_labels_layer ed = Inr (Some layer) \<and>
            1 \<le> length (shape (layer_data layer)) \<and>
            mr_input_segmentation run =
              (layer_data layer)\<lparr>shape := take 1 (shape (layer_data layer)) @ [1] @
                                          drop 1 (shape (layer_data layer))\<rparr>)"
proof -
  from assms(1) obtain layer where
    layer: "RunEditor_get_labels_layer ed = Inr (Some layer)"
    by (auto simp: get_run_def bind_result_def Let_def split: sum.splits option.splits)
  from assms(1) layer obtain seg where
    seg: "expand_dims (layer_data layer) 1 = Inr seg"
    by (auto simp: get_run_def bind_result_def Let_def split: sum.splits option.splits)
  from assms(1) layer seg have
    run: "run = \<lparr>mr_run_name = re_run_name ed, mr_solver_params = next_free st,
                 mr_input_segmentation = seg\<rparr>"
    and st': "st' = snd (copy_object (re_solver_params ed) st)"
    by (auto simp: get_run_def bind_result_def Let_def copy_object_def alloc_def
        RunEditor_get_run_name_def split: prod.splits)
  have fresh: "re_solver_params ed \<noteq> mr_solver_params run"
    using assms(2) by (simp add: run)
  have copied: "objects st' (mr_solver_params run) = objects st (re_solver_params ed)"
    by (simp add: run st' copy_object_def alloc_def)
  have kept: "objects (assign_all (re_solver_params ed) assigns st') (mr_solver_params run) =
      objects st (re_solver_params ed)"
    by (simp add: objects_assign_all_other [OF fresh] copied)
  from seg have dims: "1 \<le> length (shape (layer_data layer))"
    and seg_eq: "seg = (layer_data layer)\<lparr>shape := take 1 (shape (layer_data layer)) @ [1] @
                                          drop 1 (shape (layer_data layer))\<rparr>"
    by (auto simp: expand_dims_def split: if_splits)
  show ?thesis
    using fresh copied kept layer dims seg_eq by (simp add: run)
qed

theorem get_run_snapshot_witness:
  "get_run example_editor example_store =
     Inr (Some \<lparr>mr_run_name = ''tracks'', mr_solver_params = 1,
                mr_input_segmentation = \<lparr>shape = [2, 1, 1, 2], elements = [0, 1, 1, 0]\<rparr>\<rparr>,
          \<lparr>objects = (\<lambda>a. example_params)(1 := example_params), next_free = 2\<rparr>) \<and>
   re_solver_params example_editor < next_free example_store \<and>
   objects (assign_all (re_solver_params example_editor)
              [setattr_optional Appear_cost None, setattr_data Max_children 5]
              \<lparr>objects = (\<lambda>a. example_params)(1 := example_params), next_free = 2\<rparr>) 1
     = example_params"
proof -
  have run: "get_run example_editor example_store =
     Inr (Some \<lparr>mr_run_name = ''tracks'', mr_solver_params = 1,
                mr_input_segmentation = \<lparr>shape = [2, 1, 1, 2], elements = [0, 1, 1, 0]\<rparr>\<rparr>,
          \<lparr>objects = (\<lambda>a. example_params)(1 := example_params), next_free = 2\<rparr>)"
    by (simp add: get_run_def example_editor_def example_store_def example_layer_def
        update_labels_layers_def add_labels_layers_def clear_def QComboBox_init_def
        addItem_def currentText_def RunEditor_get_labels_layer_def layers_getitem_def
        RunEditor_get_run_name_def expand_dims_def copy_object_def alloc_def
        bind_result_def Let_def)
  have allocated: "re_solver_params example_editor < next_free example_store"
    by (simp add: example_editor_def example_store_def update_labels_layers_def Let_def)
  from get_run_snapshot [OF run allocated,
      of "[setattr_optional Appear_cost None, setattr_data Max_children 5]"]
  show ?thesis using run allocated
    by (simp add: example_editor_def example_store_def update_labels_layers_def Let_def)
qed

text \<open>
  C10. \<open>solve_with_motile\<close> passes the position keys \<open>y, x\<close> to the solver and to the
  tracks conversion when the segmentation has exactly 3 dimensions, and \<open>z, y, x\<close>
  when it has exactly 4. For any other number of dimensions the position keys are never
  assigned: the function raises \<open>UnboundLocalError\<close> after it has constructed the
  \<open>MotileSolver\<close> object and before it calls the object's \<open>solve\<close>.
\<close>

theorem solve_with_motile_position_keys:
  "solve_with_motile lib seg p =
     (if length (shape seg) = 3 \<or> length (shape seg) = 4
      then let position_keys =
                 (if length (shape seg) = 3 then [''y'', ''x''] else [''z'', ''y'', ''x'']);
               solver = MotileSolver lib p;
               nx = MotileSolver_solve lib solver seg position_keys
           in (Inr (nx, relabel_segmentation lib nx seg,
                    to_napari_tracks_layer lib nx position_keys, p),
               [Call_MotileSolver p, Call_solve solver seg position_keys,
                Call_relabel_segmentation nx seg,
                Call_to_napari_tracks_layer nx position_keys])
      else (Inl UnboundLocalError, [Call_MotileSolver p]))"
  by (simp add: solve_with_motile_def Let_def)

subsection \<open>Properties of the parameter controls and of saving and loading\<close>

lemma loading_widget_init:
  "MotileWidget_init example_params [] saved_runs empty_store = Inr (loading_widget, example_store)"
  by (simp add: MotileWidget_init_def example_params_def empty_store_def example_store_def
      example_widget_def loading_widget_def saved_runs_def stem_def
      alloc_def bind_result_def param_spinbox_def param_spinbox_data_def
      spin_bound_def spin_round_def int32_range_def ui_select_labels_layer_def
      ui_load_tracks_selection_def
      list_runs_def add_labels_layers_def addItem_def QComboBox_init_def Let_def fun_eq_iff)

lemma setValue_frame:
  assumes "setValue v sb st = (sb', st')"
  shows "ps_bound sb' = ps_bound sb \<and> (ps_bound sb \<noteq> a \<longrightarrow> objects st' a = objects st a)"
  using assms by (auto simp: setValue_def Let_def setattr_at_def split: if_splits)

lemma setEnabled_frame:
  assumes "setEnabled b sb st = (sb', st')"
  shows "ps_bound sb' = ps_bound sb \<and> (ps_bound sb \<noteq> a \<longrightarrow> objects st' a = objects st a)"
  using assms by (auto simp: setEnabled_def changeEvent_def Let_def setattr_at_def split: if_splits)

lemma setEnabled_all_frame:
  assumes "setEnabled_all b sbs st = (sbs', st')"
  shows "map ps_bound sbs' = map ps_bound sbs \<and>
         (a \<notin> set (map ps_bound sbs) \<longrightarrow> objects st' a = objects st a)"
  using assms
proof (induction sbs arbitrary: st sbs' st')
  case Nil
  then show ?case by simp
next
  case (Cons sb sbs)
  obtain sb1 st1 where s1: "setEnabled b sb st = (sb1, st1)" by (cases "setEnabled b sb st")
  obtain sbs2 st2 where s2: "setEnabled_all b sbs st1 = (sbs2, st2)"
    by (cases "setEnabled_all b sbs st1")
  from Cons.prems s1 s2 have eq: "sbs' = sb1 # sbs2" "st' = st2" by simp_all
  from setEnabled_frame [OF s1, of a] Cons.IH [OF s2] show ?case
    by (simp add: eq)
qed

lemma on_toggle_eq:
  "on_toggle ec st =
     (let (sbs, st) = setEnabled_all (ec_checked ec) (ec_spinboxes ec) st
      in (ec\<lparr>ec_spinboxes := sbs\<rparr>, st))"
  by (cases "ec_checked ec") (simp_all add: on_toggle_def)

lemma setChecked_frame:
  assumes "setChecked b ec st = (ec', st')"
  shows "map ps_bound (ec_spinboxes ec') = map ps_bound (ec_spinboxes ec) \<and>
         (a \<notin> set (map ps_bound (ec_spinboxes ec)) \<longrightarrow> objects st' a = objects st a)"
proof (cases "ec_checked ec = b")
  case True
  with assms show ?thesis by (simp add: setChecked_def)
next
  case False
  obtain sbs1 st1 where s1: "setEnabled_all b (ec_spinboxes ec) st = (sbs1, st1)"
    by (cases "setEnabled_all b (ec_spinboxes ec) st")
  with assms False have "ec' = ec\<lparr>ec_checked := b, ec_spinboxes := sbs1\<rparr>" "st' = st1"
    by (auto simp: setChecked_def on_toggle_eq)
  with setEnabled_all_frame [OF s1, of a] show ?thesis by simp
qed

lemma edit_spinbox_frame:
  assumes "edit_spinbox i v ec st = (ec', st')"
  shows "map ps_bound (ec_spinboxes ec') = map ps_bound (ec_spinboxes ec) \<and>
         (a \<notin> set (map ps_bound (ec_spinboxes ec)) \<longrightarrow> objects st' a = objects st a)"
proof (cases "i < length (ec_spinboxes ec)")
  case False
  with assms show ?thesis by (simp add: edit_spinbox_def)
next
  case True
  obtain sb1 st1 where s1: "setValue v (ec_spinboxes ec ! i) st = (sb1, st1)"
    by (cases "setValue v (ec_spinboxes ec ! i) st")
  with assms True have eq: "ec' = ec\<lparr>ec_spinboxes := (ec_spinboxes ec)[i := sb1]\<rparr>" "st' = st1"
    by (simp_all add: edit_spinbox_def)
  from setValue_frame [OF s1, of a] have b: "ps_bound sb1 = ps_bound (ec_spinboxes ec ! i)"
    and f: "ps_bound (ec_spinboxes ec ! i) \<noteq> a \<longrightarrow> objects st1 a = objects st a"
    by simp_all
  have "map ps_bound ((ec_spinboxes ec)[i := sb1]) = map ps_bound (ec_spinboxes ec)"
    using b True by (simp add: map_update list_update_same_conv)
  moreover have "a \<notin> set (map ps_bound (ec_spinboxes ec)) \<longrightarrow> objects st1 a = objects st a"
  proof
    assume "a \<notin> set (map ps_bound (ec_spinboxes ec))"
    moreover have "ps_bound (ec_spinboxes ec ! i) \<in> set (map ps_bound (ec_spinboxes ec))"
      using True by simp
    ultimately have "ps_bound (ec_spinboxes ec ! i) \<noteq> a" by metis
    with f show "objects st1 a = objects st a" by simp
  qed
  ultimately show ?thesis by (simp add: eq)
qed

lemma update_value_frame:
  assumes "update_value i solver_params ec st = (ec', st')"
  shows "map ps_bound (ec_spinboxes ec') = map ps_bound (ec_spinboxes ec) \<and>
         (a \<notin> set (map ps_bound (ec_spinboxes ec)) \<longrightarrow> objects st' a = objects st a)"
  using assms setChecked_frame [of False ec st ec' st' a] edit_spinbox_frame [of i _ ec st ec' st' a]
  by (auto simp: update_value_def disable_def split: if_splits option.splits)

lemma fold_update_value_frame:
  assumes "fold (\<lambda>i (ec, st). update_value i solver_params ec st) is (ec, st) = (ec', st')"
  shows "map ps_bound (ec_spinboxes ec') = map ps_bound (ec_spinboxes ec) \<and>
         (a \<notin> set (map ps_bound (ec_spinboxes ec)) \<longrightarrow> objects st' a = objects st a)"
  using assms
proof (induction "is" arbitrary: ec st)
  case Nil
  then show ?case by simp
next
  case (Cons i "is")
  obtain ec1 st1 where s1: "update_value i solver_params ec st = (ec1, st1)"
    by (cases "update_value i solver_params ec st")
  with Cons.prems have
    "fold (\<lambda>i (ec, st). update_value i solver_params ec st) is (ec1, st1) = (ec', st')"
    by simp
  from Cons.IH [OF this] update_value_frame [OF s1, of a] show ?case by simp
qed

lemma update_control_frame:
  assumes "update_control solver_params ec st = (ec', st')"
  shows "map ps_bound (ec_spinboxes ec') = map ps_bound (ec_spinboxes ec) \<and>
         (a \<notin> set (map ps_bound (ec_spinboxes ec)) \<longrightarrow> objects st' a = objects st a)"
  using assms fold_update_value_frame unfolding update_control_def by blast


lemma DataSpinBox_update_value_frame:
  assumes "DataSpinBox_update_value solver_params sb st = Inr (sb', st')"
  shows "ds_bound sb' = ds_bound sb \<and> next_free st' = next_free st \<and>
         (ds_bound sb \<noteq> a \<longrightarrow> objects st' a = objects st a)"
  using assms
  by (auto simp: DataSpinBox_update_value_def DataSpinBox_setValue_def Let_def
      setattr_at_def split: if_splits)






text \<open>
  The bindings of a widget stay below the next free address: \<open>__init__\<close> binds every
  spin box to the object it has just created, and neither the user's toggling and
  editing nor \<open>_load_run\<close> rebinds a spin box.
\<close>

lemma setValue_next_free:
  "setValue v sb st = (sb', st') \<Longrightarrow> next_free st' = next_free st"
  by (auto simp: setValue_def Let_def setattr_at_def split: if_splits)

lemma setEnabled_next_free:
  "setEnabled b sb st = (sb', st') \<Longrightarrow> next_free st' = next_free st"
  by (auto simp: setEnabled_def changeEvent_def Let_def setattr_at_def split: if_splits)

lemma setEnabled_all_next_free:
  "setEnabled_all b sbs st = (sbs', st') \<Longrightarrow> next_free st' = next_free st"
proof (induction sbs arbitrary: st sbs' st')
  case Nil
  then show ?case by simp
next
  case (Cons sb sbs)
  obtain sb1 st1 where s1: "setEnabled b sb st = (sb1, st1)" by (cases "setEnabled b sb st")
  obtain sbs2 st2 where s2: "setEnabled_all b sbs st1 = (sbs2, st2)"
    by (cases "setEnabled_all b sbs st1")
  from Cons.prems s1 s2 have "st' = st2" by simp
  with setEnabled_next_free [OF s1] Cons.IH [OF s2] show ?case by simp
qed

lemma setChecked_next_free:
  "setChecked b ec st = (ec', st') \<Longrightarrow> next_free st' = next_free st"
  by (cases "setEnabled_all b (ec_spinboxes ec) st")
     (auto simp: setChecked_def on_toggle_eq dest: setEnabled_all_next_free split: if_splits)

lemma edit_spinbox_next_free:
  "edit_spinbox i v ec st = (ec', st') \<Longrightarrow> next_free st' = next_free st"
  by (cases "setValue v (ec_spinboxes ec ! i) st")
     (auto simp: edit_spinbox_def dest: setValue_next_free split: if_splits)

lemma update_value_next_free:
  "update_value i solver_params ec st = (ec', st') \<Longrightarrow> next_free st' = next_free st"
  by (auto simp: update_value_def disable_def dest: setChecked_next_free edit_spinbox_next_free
      split: if_splits option.splits)

lemma fold_update_value_next_free:
  "fold (\<lambda>i (ec, st). update_value i solver_params ec st) is (ec, st) = (ec', st') \<Longrightarrow>
   next_free st' = next_free st"
proof (induction "is" arbitrary: ec st)
  case Nil
  then show ?case by simp
next
  case (Cons i "is")
  obtain ec1 st1 where s1: "update_value i solver_params ec st = (ec1, st1)"
    by (cases "update_value i solver_params ec st")
  with Cons.prems have
    "fold (\<lambda>i (ec, st). update_value i solver_params ec st) is (ec1, st1) = (ec', st')"
    by simp
  from Cons.IH [OF this] update_value_next_free [OF s1] show ?case by simp
qed

lemma update_controls_bounds:
  assumes "update_controls solver_params ecs st = (ecs', st')"
  shows "map (\<lambda>ec. map ps_bound (ec_spinboxes ec)) ecs' =
           map (\<lambda>ec. map ps_bound (ec_spinboxes ec)) ecs \<and>
         next_free st' = next_free st"
  using assms
proof (induction ecs arbitrary: st ecs' st')
  case Nil
  then show ?case by simp
next
  case (Cons ec ecs)
  obtain ec1 st1 where s1: "update_control solver_params ec st = (ec1, st1)"
    by (cases "update_control solver_params ec st")
  obtain ecs2 st2 where s2: "update_controls solver_params ecs st1 = (ecs2, st2)"
    by (cases "update_controls solver_params ecs st1")
  from Cons.prems s1 s2 have eq: "ecs' = ec1 # ecs2" "st' = st2" by simp_all
  from s1 have "map ps_bound (ec_spinboxes ec1) = map ps_bound (ec_spinboxes ec)"
    and "next_free st1 = next_free st"
    using update_control_frame [OF s1] fold_update_value_next_free
    unfolding update_control_def by blast+
  with Cons.IH [OF s2] show ?case by (simp add: eq)
qed

lemma update_data_spinboxes_bounds:
  assumes "update_data_spinboxes solver_params sbs st = Inr (sbs', st')"
  shows "map ds_bound sbs' = map ds_bound sbs \<and> next_free st' = next_free st"
  using assms
proof (induction sbs arbitrary: st sbs' st')
  case Nil
  then show ?case by simp
next
  case (Cons sb sbs)
  from Cons.prems obtain sb1 st1 where
    s1: "DataSpinBox_update_value solver_params sb st = Inr (sb1, st1)"
    by (auto simp: bind_result_def split: sum.splits)
  with Cons.prems obtain sbs2 st2 where
    s2: "update_data_spinboxes solver_params sbs st1 = Inr (sbs2, st2)"
    by (auto simp: bind_result_def split: sum.splits)
  from Cons.prems s1 s2 have eq: "sbs' = sb1 # sbs2" "st' = st2"
    by (simp_all add: bind_result_def)
  from DataSpinBox_update_value_frame [OF s1, of 0] Cons.IH [OF s2] show ?case
    by (simp add: eq)
qed

lemma bindings_below_bounds:
  "bindings_below n w =
     (list_all (\<lambda>a. a < n) (map ds_bound (data_spinboxes w)) \<and>
      list_all (list_all (\<lambda>a. a < n))
        (map (\<lambda>ec. map ps_bound (ec_spinboxes ec)) (enable_controls w)))"
  by (simp add: bindings_below_def list_all_iff)

lemma bindings_below_mono:
  "bindings_below n w \<Longrightarrow> n \<le> m \<Longrightarrow> bindings_below m w"
  by (fastforce simp: bindings_below_def list_all_iff)

lemma emit_update_signal_bindings:
  assumes "emit_update_signal solver_params w st = Inr (w', st')"
  shows "bindings_below n w' = bindings_below n w \<and> next_free st' = next_free st"
proof -
  from assms obtain ds st1 where s1:
    "update_data_spinboxes solver_params (data_spinboxes w) st = Inr (ds, st1)"
    by (auto simp: emit_update_signal_def bind_result_def Let_def split: sum.splits)
  obtain ecs st2 where s2:
    "update_controls solver_params (enable_controls w) st1 = (ecs, st2)"
    by (cases "update_controls solver_params (enable_controls w) st1")
  from assms s1 s2 have eq:
    "w' = w\<lparr>update_signal_emitted := update_signal_emitted w @ [solver_params],
           data_spinboxes := ds, enable_controls := ecs\<rparr>" "st' = st2"
    by (simp_all add: emit_update_signal_def bind_result_def Let_def)
  from update_data_spinboxes_bounds [OF s1] update_controls_bounds [OF s2]
  show ?thesis by (simp add: eq bindings_below_bounds)
qed

lemma load_run_bindings:
  assumes "load_run fs w st = Inr (w', st')" and "bindings_below (next_free st) w"
  shows "bindings_below (next_free st') w'"
proof (cases "currentText (load_tracks_selection w) = ''None''")
  case True
  with assms show ?thesis by (simp add: load_run_def)
next
  case False
  with assms(1) obtain run where run: "Run_load fs (currentText (load_tracks_selection w)) = Inr run"
    by (auto simp: load_run_def bind_result_def Let_def split: sum.splits)
  let ?w1 = "(set_run_name (run_name run) w)\<lparr>mw_solver_params := next_free st\<rparr>"
  let ?st1 = "snd (alloc (params run) st)"
  from assms(1) False run have emit:
    "emit_update_signal (next_free st) ?w1 ?st1 = Inr (w', st')"
    by (simp add: load_run_def bind_result_def Let_def alloc_def)
  have "bindings_below (next_free ?st1) ?w1"
    using bindings_below_mono [OF assms(2), of "Suc (next_free st)"]
    by (simp add: bindings_below_def set_run_name_def alloc_def)
  with emit_update_signal_bindings [OF emit] show ?thesis by simp
qed

lemma toggle_control_bindings:
  assumes "toggle_control k b w st = (w', st')"
  shows "bindings_below n w' = bindings_below n w \<and> next_free st' = next_free st"
proof (cases "k < length (enable_controls w)")
  case False
  with assms show ?thesis by (simp add: toggle_control_def)
next
  case True
  obtain ec1 st1 where s1: "setChecked b (enable_controls w ! k) st = (ec1, st1)"
    by (cases "setChecked b (enable_controls w ! k) st")
  with assms True have eq: "w' = w\<lparr>enable_controls := (enable_controls w)[k := ec1]\<rparr>" "st' = st1"
    by (simp_all add: toggle_control_def)
  from setChecked_frame [OF s1] have
    "map ps_bound (ec_spinboxes ec1) = map ps_bound (ec_spinboxes (enable_controls w ! k))"
    by simp
  then have "map (\<lambda>ec. map ps_bound (ec_spinboxes ec)) ((enable_controls w)[k := ec1]) =
      map (\<lambda>ec. map ps_bound (ec_spinboxes ec)) (enable_controls w)"
    using True by (simp add: map_update list_update_same_conv)
  with setChecked_next_free [OF s1] show ?thesis by (simp add: eq bindings_below_bounds)
qed

lemma edit_control_bindings:
  assumes "edit_control k i v w st = (w', st')"
  shows "bindings_below n w' = bindings_below n w \<and> next_free st' = next_free st"
proof (cases "k < length (enable_controls w)")
  case False
  with assms show ?thesis by (simp add: edit_control_def)
next
  case True
  obtain ec1 st1 where s1: "edit_spinbox i v (enable_controls w ! k) st = (ec1, st1)"
    by (cases "edit_spinbox i v (enable_controls w ! k) st")
  with assms True have eq: "w' = w\<lparr>enable_controls := (enable_controls w)[k := ec1]\<rparr>" "st' = st1"
    by (simp_all add: edit_control_def)
  from edit_spinbox_frame [OF s1] have
    "map ps_bound (ec_spinboxes ec1) = map ps_bound (ec_spinboxes (enable_controls w ! k))"
    by simp
  then have "map (\<lambda>ec. map ps_bound (ec_spinboxes ec)) ((enable_controls w)[k := ec1]) =
      map (\<lambda>ec. map ps_bound (ec_spinboxes ec)) (enable_controls w)"
    using True by (simp add: map_update list_update_same_conv)
  with edit_spinbox_next_free [OF s1] show ?thesis by (simp add: eq bindings_below_bounds)
qed

lemma enable_control_bounds:
  "enable_control defaults a negative ns = Inr ec \<Longrightarrow>
   list_all (\<lambda>sb. ps_bound sb = a) (ec_spinboxes ec)"
proof (induction ns arbitrary: ec)
  case Nil
  then show ?case by auto
next
  case (Cons n ns)
  then show ?case
    by (auto simp: bind_result_def param_spinbox_def Let_def split: sum.splits option.splits)
qed

lemma enable_controls_for_bounds:
  "enable_controls_for defaults a negative nss = Inr ecs \<Longrightarrow>
   list_all (\<lambda>ec. list_all (\<lambda>sb. ps_bound sb = a) (ec_spinboxes ec)) ecs"
proof (induction nss arbitrary: ecs)
  case Nil
  then show ?case by auto
next
  case (Cons ns nss)
  then show ?case
    by (auto simp: bind_result_def enable_control_bounds split: sum.splits)
qed

lemma data_spinboxes_for_bounds:
  "data_spinboxes_for defaults a ns = Inr sbs \<Longrightarrow> list_all (\<lambda>sb. ds_bound sb = a) sbs"
proof (induction ns arbitrary: sbs)
  case Nil
  then show ?case by auto
next
  case (Cons n ns)
  then show ?case
    by (auto simp: bind_result_def param_spinbox_data_def Let_def split: sum.splits if_splits)
qed

lemma MotileWidget_init_bindings:
  assumes "MotileWidget_init defaults layers fs st = Inr (w, st')"
  shows "bindings_below (next_free st') w \<and> mw_solver_params w < next_free st'"
proof -
  let ?a = "next_free st"
  from assms obtain spinboxes boxes groups where
    spinboxes: "data_spinboxes_for defaults ?a
              [Max_edge_distance, Max_children, Max_parents] = Inr spinboxes"
    and boxes: "enable_controls_for defaults ?a False
              [[Appear_cost], [Disappear_cost], [Division_cost], [Merge_cost]] = Inr boxes"
    and groups: "enable_controls_for defaults ?a True
              [[Distance_weight, Distance_offset], [Iou_weight, Iou_offset]] = Inr groups"
    by (auto simp: MotileWidget_init_def alloc_def bind_result_def Let_def split: sum.splits)
  from assms spinboxes boxes groups have
    w: "enable_controls w = boxes @ groups" "data_spinboxes w = spinboxes"
       "mw_solver_params w = ?a"
    and st': "next_free st' = Suc ?a"
    by (auto simp: MotileWidget_init_def alloc_def bind_result_def Let_def)
  from enable_controls_for_bounds [OF boxes] enable_controls_for_bounds [OF groups]
  have "list_all (\<lambda>ec. list_all (\<lambda>sb. ps_bound sb < Suc ?a) (ec_spinboxes ec)) (boxes @ groups)"
    by (auto simp: list_all_iff)
  moreover from data_spinboxes_for_bounds [OF spinboxes]
  have "list_all (\<lambda>sb. ds_bound sb < Suc ?a) spinboxes"
    by (auto simp: list_all_iff)
  ultimately show ?thesis
    by (simp add: bindings_below_def w st')
qed




text \<open>
  C4, where the code departs from it. The widget is built over a base path with one
  saved run whose \<open>appear_cost\<close> is 12; the user unchecks the enable box of the appear
  cost, which sets the parameter to \<open>None\<close>, and then loads the run. \<open>update_value\<close>
  shows 12 in the spin box, but the enable box stays unchecked and the spin box
  disabled, although the widget's \<open>appear_cost\<close> is now 12. The value that the spin box
  emitted went to the object the spin box was bound to at construction, at address 0,
  and not to the widget's parameters, which are the loaded object at address 1.
\<close>

theorem update_leaves_enable_box_unchecked:
  "(case toggle_control 0 False loading_widget example_store of
      (w1, st1) \<Rightarrow>
        appear_cost (objects st1 (mw_solver_params w1)) = None \<and>
        (case load_run saved_runs w1 st1 of
           Inl e \<Rightarrow> False
         | Inr (w2, st2) \<Rightarrow>
             appear_cost (objects st2 (mw_solver_params w2)) = Some 12 \<and>
             enable_controls w2 ! 0 =
               \<lparr>ec_checked = False,
                ec_spinboxes =
                  [\<lparr>ps_param = Appear_cost, ps_bound = 0, ps_enabled = False,
                      ps_minimum = 0, ps_maximum = 10000, ps_shown = 12\<rparr>]\<rparr> \<and>
             mw_solver_params w2 = 1 \<and>
             appear_cost (objects st2 0) = Some 12))"
  by (simp add: toggle_control_def loading_widget_def example_widget_def example_store_def
      setChecked_def on_toggle_def disable_def setEnabled_def changeEvent_def setattr_at_def
      load_run_def saved_runs_def Run_load_def currentText_def bind_result_def
      set_run_name_def alloc_def emit_update_signal_def
      DataSpinBox_update_value_def DataSpinBox_setValue_def int32_range_def
      update_control_def update_value_def edit_spinbox_def setValue_def
      spin_bound_def spin_round_def example_params_def Let_def upt_rec)

text \<open>
  In general: an update with a value that is not \<open>None\<close> leaves the checked state of
  the control as it was, so an unchecked control stays unchecked.
\<close>

lemma update_value_keeps_checked_state:
  assumes "update_value i solver_params ec st = (ec', st')"
    and "i < length (ec_spinboxes ec)"
    and "getattr_optional (ps_param (ec_spinboxes ec ! i)) (objects st solver_params) = Some v"
  shows "ec_checked ec' = ec_checked ec"
  using assms
  by (cases "setValue v (ec_spinboxes ec ! i) st")
     (auto simp: update_value_def edit_spinbox_def)

text \<open>
  The rows of \<open>params_editor.py\<close> do what the claim says. Toggling the check box
  assigns \<open>None\<close> or the shown value to the parameter; an update from a parameter value
  leaves the check box checked and the value control enabled exactly when the value is
  not \<open>None\<close>, shows the value, and, for a row that was in step with its parameter,
  leaves the parameter equal to the value.
\<close>

lemma toggle_enable_sets_param:
  "toggle_enable checked row param = (row', param') \<Longrightarrow>
   param' = (if checked then Some (pv_shown (param_value row)) else None) \<and>
   pv_enabled (param_value row') = checked"
  by (auto simp: toggle_enable_def Let_def)

lemma update_from_params_checked:
  assumes "update_from_params param_val row param = (row', param')"
  shows "param_label_checked row' = (param_val \<noteq> None) \<and>
         pv_enabled (param_value row') = (param_val \<noteq> None) \<and>
         (case param_val of None \<Rightarrow> True | Some v \<Rightarrow> pv_shown (param_value row') = v)"
  using assms
  by (auto simp: update_from_params_def param_label_setChecked_def toggle_enable_def
      EditableParamValue_update_value_def Let_def split: option.splits if_splits)

lemma update_from_params_param:
  assumes "update_from_params param_val row param = (row', param')"
    and "param_label_checked row = (param \<noteq> None)"
    and "param_label_checked row \<longrightarrow> param = Some (pv_shown (param_value row))"
  shows "param' = param_val"
  using assms
  by (auto simp: update_from_params_def param_label_setChecked_def toggle_enable_def
      EditableParamValue_update_value_def Let_def split: option.splits if_splits)

text \<open>
  So do the controls of \<open>_motile_widget.py\<close> when the user toggles or edits them:
  the parameter of the bound object becomes \<open>None\<close>, the shown value, or the edited
  value as the spin box shows it.
\<close>

lemma getattr_setattr_optional:
  "getattr_optional n (setattr_optional n v p) = v"
  by (cases n) simp_all

lemma setEnabled_sets_param:
  assumes "setEnabled b sb st = (sb', st')" and "ps_enabled sb \<noteq> b"
  shows "getattr_optional (ps_param sb) (objects st' (ps_bound sb)) =
           (if b then Some (ps_shown sb) else None) \<and> ps_enabled sb' = b"
  using assms
  by (auto simp: setEnabled_def changeEvent_def setattr_at_def Let_def getattr_setattr_optional)

lemma EnableBox_toggle_sets_param:
  assumes "setChecked b ec st = (ec', st')"
    and "ec_spinboxes ec = [sb]" and "ec_checked ec \<noteq> b" and "ps_enabled sb \<noteq> b"
  shows "getattr_optional (ps_param sb) (objects st' (ps_bound sb)) =
           (if b then Some (ps_shown sb) else None) \<and> ec_checked ec' = b"
proof -
  obtain sb1 st1 where s1: "setEnabled b sb st = (sb1, st1)" by (cases "setEnabled b sb st")
  with assms(1-3) have "ec' = ec\<lparr>ec_checked := b, ec_spinboxes := [sb1]\<rparr>" "st' = st1"
    by (auto simp: setChecked_def on_toggle_eq)
  with setEnabled_sets_param [OF s1 assms(4)] show ?thesis by simp
qed

lemma setValue_sets_param:
  assumes "setValue v sb st = (sb', st')" and "ps_shown sb' \<noteq> ps_shown sb"
  shows "getattr_optional (ps_param sb) (objects st' (ps_bound sb)) = Some (ps_shown sb') \<and>
         ps_shown sb' = spin_bound (ps_minimum sb) (ps_maximum sb) (spin_round 1 v)"
  using assms
  by (auto simp: setValue_def setattr_at_def Let_def getattr_setattr_optional split: if_splits)

end
